theory Spec2Isabelle
  imports Complex_Main
begin

section \<open>Python strings\<close>

text \<open>
  A Python \<open>str\<close> is modelled as a \<open>string\<close>: one \<open>char\<close> per code point, so the
  model covers the texts whose code points lie in U+0000..U+00FF. On that range the
  functions below are the ones of CPython's \<open>str\<close> type.
\<close>

definition py_isspace :: "char \<Rightarrow> bool" where
  \<comment> \<open>\<open>str.isspace\<close> on one character: the code points that \<open>str.strip()\<close> removes\<close>
  "py_isspace c =
     (c \<in> set [CHR 0x09, CHR 0x0A, CHR 0x0B, CHR 0x0C, CHR 0x0D, CHR 0x1C, CHR 0x1D, CHR 0x1E,
                CHR 0x1F, CHR 0x20, CHR 0x85, CHR 0xA0])"

definition strip :: "string \<Rightarrow> string" where
  "strip s = rev (dropWhile py_isspace (rev (dropWhile py_isspace s)))"

definition upper_chars :: string where
  \<comment> \<open>the cased characters that \<open>str.lower()\<close> changes: A-Z and U+00C0..U+00DE without U+00D7\<close>
  "upper_chars = ''ABCDEFGHIJKLMNOPQRSTUVWXYZ'' @
     [CHR 0xC0, CHR 0xC1, CHR 0xC2, CHR 0xC3, CHR 0xC4, CHR 0xC5, CHR 0xC6, CHR 0xC7,
      CHR 0xC8, CHR 0xC9, CHR 0xCA, CHR 0xCB, CHR 0xCC, CHR 0xCD, CHR 0xCE, CHR 0xCF,
      CHR 0xD0, CHR 0xD1, CHR 0xD2, CHR 0xD3, CHR 0xD4, CHR 0xD5, CHR 0xD6, CHR 0xD8,
      CHR 0xD9, CHR 0xDA, CHR 0xDB, CHR 0xDC, CHR 0xDD, CHR 0xDE]"

definition lower_chars :: string where
  \<comment> \<open>their lower-case images, in the same order\<close>
  "lower_chars = ''abcdefghijklmnopqrstuvwxyz'' @
     [CHR 0xE0, CHR 0xE1, CHR 0xE2, CHR 0xE3, CHR 0xE4, CHR 0xE5, CHR 0xE6, CHR 0xE7,
      CHR 0xE8, CHR 0xE9, CHR 0xEA, CHR 0xEB, CHR 0xEC, CHR 0xED, CHR 0xEE, CHR 0xEF,
      CHR 0xF0, CHR 0xF1, CHR 0xF2, CHR 0xF3, CHR 0xF4, CHR 0xF5, CHR 0xF6, CHR 0xF8,
      CHR 0xF9, CHR 0xFA, CHR 0xFB, CHR 0xFC, CHR 0xFD, CHR 0xFE]"

definition lower_char :: "char \<Rightarrow> char" where
  "lower_char c = (case map_of (zip upper_chars lower_chars) c of Some l \<Rightarrow> l | None \<Rightarrow> c)"

definition lower :: "string \<Rightarrow> string" where
  "lower s = map lower_char s"

fun startswith :: "string \<Rightarrow> string \<Rightarrow> bool" where
  \<comment> \<open>\<open>startswith s p\<close> is \<open>s.startswith(p)\<close>\<close>
  "startswith s [] = True"
| "startswith [] (p # ps) = False"
| "startswith (c # cs) (p # ps) = (c = p \<and> startswith cs ps)"

fun contains :: "string \<Rightarrow> string \<Rightarrow> bool" where
  \<comment> \<open>\<open>contains s sub\<close> is \<open>sub in s\<close>\<close>
  "contains [] sub = (sub = [])"
| "contains (c # cs) sub = (startswith (c # cs) sub \<or> contains cs sub)"

fun split :: "char \<Rightarrow> string \<Rightarrow> string list" where
  \<comment> \<open>\<open>s.split(sep)\<close> for a one-character separator\<close>
  "split sep [] = [[]]"
| "split sep (c # cs) =
     (if c = sep then [] # split sep cs
      else (case split sep cs of [] \<Rightarrow> [[c]] | l # ls \<Rightarrow> (c # l) # ls))"

fun join :: "string \<Rightarrow> string list \<Rightarrow> string" where
  \<comment> \<open>\<open>join sep xs\<close> is \<open>sep.join(xs)\<close>\<close>
  "join sep [] = []"
| "join sep [x] = x"
| "join sep (x # y # ys) = x @ sep @ join sep (y # ys)"

definition digit_char :: "nat \<Rightarrow> char" where
  \<comment> \<open>the decimal digit \<open>d < 10\<close> as a character\<close>
  "digit_char d = ''0123456789'' ! d"

fun str_nat :: "nat \<Rightarrow> string" where
  "str_nat n = (if n < 10 then [digit_char n] else str_nat (n div 10) @ [digit_char (n mod 10)])"

declare str_nat.simps [simp del]

definition str_int :: "int \<Rightarrow> string" where
  \<comment> \<open>\<open>str(i)\<close>, also what an f-string writes for an integer\<close>
  "str_int i = (if i < 0 then CHR ''-'' # str_nat (nat (- i)) else str_nat (nat i))"

section \<open>Local helpers\<close>

subsection \<open>Preference classifier\<close>

record learning_analysis =
  primary_learning_style :: string
  recommended_study_methods :: "string list"
  personalized_tips :: string

definition methods :: "(string \<times> string list) list" where
  "methods =
     [(''visual'', [''video lectures'', ''diagrams'', ''mind maps'', ''flashcards'']),
      (''auditory'', [''podcasts'', ''audio books'', ''group discussions'', ''lectures'']),
      (''kinesthetic'', [''hands-on practice'', ''labs'', ''projects'', ''simulations'']),
      (''reading-writing'', [''textbooks'', ''note-taking'', ''written summaries'', ''articles''])]"

definition methods_get :: "string \<Rightarrow> string list \<Rightarrow> string list" where
  \<comment> \<open>\<open>methods.get(key, default)\<close>\<close>
  "methods_get key dflt = (case map_of methods key of Some v \<Rightarrow> v | None \<Rightarrow> dflt)"

definition analyze_learning_preferences_local :: "string \<Rightarrow> learning_analysis" where
  "analyze_learning_preferences_local prefs_text =
     (let prefs_lower = lower prefs_text;
          primary =
            (if contains prefs_lower ''visual'' then ''visual''
             else if contains prefs_lower ''audio'' \<or> contains prefs_lower ''auditory''
               then ''auditory''
             else if contains prefs_lower ''kinesthetic'' \<or> contains prefs_lower ''hands''
               then ''kinesthetic''
             else ''reading-writing'')
      in \<lparr>primary_learning_style = primary,
          recommended_study_methods =
            methods_get primary
              [''textbooks'', ''note-taking'', ''written summaries'', ''articles''],
          personalized_tips =
            ''Use 45-90 minute focused sessions with breaks. Apply active recall and spaced repetition.''\<rparr>)"

subsection \<open>Checkpoint scheduler\<close>

record checkpoint_rec =
  day :: int
  checkpoint :: string
  assessment :: string

record progress_tracking_rec =
  checkpoint_schedule :: "checkpoint_rec list"
  tracking_metrics :: "string list"

definition make_checkpoint :: "int \<Rightarrow> int \<Rightarrow> int \<Rightarrow> checkpoint_rec" where
  \<comment> \<open>the body of the \<open>for i in range(1, 5)\<close> loop\<close>
  "make_checkpoint duration_days interval i =
     \<lparr>day = min duration_days (i * interval),
      checkpoint = ''Review Week '' @ str_int i,
      assessment = ''Quiz + practical exercise''\<rparr>"

definition generate_progress_tracking_local :: "int \<Rightarrow> progress_tracking_rec" where
  "generate_progress_tracking_local duration_days =
     (let interval = max 7 (duration_days div 4);
          checkpoints = map (make_checkpoint duration_days interval) [1, 2, 3, 4]
      in \<lparr>checkpoint_schedule = checkpoints,
          tracking_metrics =
            [''Daily session completion'', ''Topic understanding scores'',
             ''Practice problem accuracy'']\<rparr>)"


section \<open>Values, exceptions and the external collaborators\<close>

text \<open>
  Exceptions are values: a computation that may raise returns \<open>exn + 'a\<close>, with \<open>Inl\<close>
  for the exception. \<open>OtherError\<close> stands for whatever an external collaborator raises
  (a transport failure of the generation client, a malformed request body).
\<close>

datatype exn =
  JSONDecodeError | AttributeError | TypeError | KeyError | ValueError | OverflowError
  | OtherError string

definition and_then :: "exn + 'a \<Rightarrow> ('a \<Rightarrow> exn + 'b) \<Rightarrow> exn + 'b" where
  \<comment> \<open>sequencing: the first exception raised leaves the block\<close>
  "and_then m f = (case m of Inl e \<Rightarrow> Inl e | Inr x \<Rightarrow> f x)"

text \<open>
  The values \<open>json.loads\<close> returns. A decoded string is a list of code points, since an
  escape \<open>\uXXXX\<close> can denote any of them; a float is kept as the numeral that denotes it
  (the program never computes with one); a \<open>dict\<close> is the list of its items in insertion
  order, with distinct keys.
\<close>

type_synonym unicode = "nat list"

definition ustr :: "string \<Rightarrow> unicode" where
  "ustr s = map of_char s"

datatype json =
  JNull | JBool bool | JInt int | JFloat string | JStr unicode
  | JList "json list" | JDict "(unicode \<times> json) list"

text \<open>
  \<open>json.loads\<close> belongs to the Python library and the generation client to CrewAI; both are
  parameters of the functions that call them. A \<open>loader\<close> is \<open>json.loads\<close>; a \<open>client\<close>
  is building a \<open>Task\<close> and a \<open>Crew\<close> from the interpolated values, \<open>kickoff()\<close> and
  \<open>str\<close> of the result. A \<open>task\<close> keeps the values interpolated into the fixed
  instruction template of each of the three roles.
\<close>

type_synonym loader = "string \<Rightarrow> exn + json"

datatype task =
  SyllabusTask string \<comment> \<open>\<open>syllabus_text[:2000]\<close>\<close>
  | ScheduleTask int json string \<comment> \<open>duration, the first subjects, the learning style\<close>
  | ResourceTask "unicode list" string \<comment> \<open>the topics, the learning style\<close>

type_synonym client = "task \<Rightarrow> exn + string"

section \<open>Response extractor\<close>

definition fence :: string where
  "fence = ''```''"

fun find_fences :: "nat \<Rightarrow> string list \<Rightarrow> nat option \<Rightarrow> nat option \<Rightarrow> nat option \<times> nat option" where
  \<comment> \<open>the \<open>for i, line in enumerate(lines)\<close> loop, from index \<open>i\<close> on\<close>
  "find_fences i [] start_idx end_idx = (start_idx, end_idx)"
| "find_fences i (line # rest) start_idx end_idx =
     (let stripped = strip line
      in if startswith stripped fence then
           (case start_idx of
              None \<Rightarrow> find_fences (i + 1) rest (Some (i + 1)) end_idx
            | Some _ \<Rightarrow> (start_idx, Some i))
         else find_fences (i + 1) rest start_idx end_idx)"

definition truthy :: "nat option \<Rightarrow> bool" where
  \<comment> \<open>the truth value of an index that is \<open>None\<close> or an integer\<close>
  "truthy idx = (case idx of None \<Rightarrow> False | Some n \<Rightarrow> n \<noteq> 0)"

definition slice :: "'a list \<Rightarrow> nat \<Rightarrow> nat \<Rightarrow> 'a list" where
  \<comment> \<open>\<open>xs[a:b]\<close> for indices that are not negative\<close>
  "slice xs a b = drop a (take b xs)"

definition remove_code_fences :: "string \<Rightarrow> string" where
  \<comment> \<open>the first half of \<open>extract_json_from_response\<close>: the text handed to \<open>json.loads\<close>\<close>
  "remove_code_fences text0 =
     (let text = strip text0
      in if startswith text fence then
           (let lines = split CHR 0x0A text
            in case find_fences 0 lines None None of
                 (Some start_idx, Some end_idx) \<Rightarrow>
                   if truthy (Some start_idx) \<and> truthy (Some end_idx)
                   then strip (join [CHR 0x0A] (slice lines start_idx end_idx))
                   else text
               | _ \<Rightarrow> text)
         else text)"

definition parse_failure :: json where
  \<comment> \<open>the sentinel\<close>
  "parse_failure = JDict [(ustr ''error'', JStr (ustr ''Failed to parse JSON response''))]"

definition extract_json_from_response :: "loader \<Rightarrow> string \<Rightarrow> exn + json" where
  \<comment> \<open>the \<open>except\<close> clause names \<open>json.JSONDecodeError\<close> only\<close>
  "extract_json_from_response loads text =
     (case loads (remove_code_fences text) of
        Inr v \<Rightarrow> Inr v
      | Inl JSONDecodeError \<Rightarrow> Inr parse_failure
      | Inl e \<Rightarrow> Inl e)"

section \<open>Plan orchestrator\<close>

fun dict_get :: "json \<Rightarrow> unicode \<Rightarrow> json \<Rightarrow> exn + json" where
  \<comment> \<open>\<open>v.get(key, default)\<close>: only a \<open>dict\<close> has the method\<close>
  "dict_get (JDict kvs) key dflt = Inr (case map_of kvs key of Some x \<Rightarrow> x | None \<Rightarrow> dflt)"
| "dict_get _ key dflt = Inl AttributeError"

fun slice_to :: "json \<Rightarrow> nat \<Rightarrow> exn + json" where
  \<comment> \<open>\<open>v[:n]\<close>: a list and a str can be sliced\<close>
  "slice_to (JList xs) n = Inr (JList (take n xs))"
| "slice_to (JStr s) n = Inr (JStr (take n s))"
| "slice_to _ n = Inl TypeError"

fun getitem :: "json \<Rightarrow> unicode \<Rightarrow> exn + json" where
  \<comment> \<open>\<open>v[key]\<close> for a str key\<close>
  "getitem (JDict kvs) key = (case map_of kvs key of Some x \<Rightarrow> Inr x | None \<Rightarrow> Inl KeyError)"
| "getitem _ key = Inl TypeError"

fun elements :: "json \<Rightarrow> json list" where
  \<comment> \<open>what \<open>for s in v\<close> visits when \<open>v\<close> is a slice: the items, or the characters of a str\<close>
  "elements (JList xs) = xs"
| "elements (JStr s) = map (\<lambda>c. JStr [c]) s"
| "elements _ = []"

fun collect :: "('a \<Rightarrow> exn + 'b) \<Rightarrow> 'a list \<Rightarrow> exn + 'b list" where
  \<comment> \<open>a list comprehension whose element expression may raise\<close>
  "collect f [] = Inr []"
| "collect f (x # xs) =
     and_then (f x) (\<lambda>y. and_then (collect f xs) (\<lambda>ys. Inr (y # ys)))"

fun str_item :: "json \<Rightarrow> exn + unicode" where
  \<comment> \<open>\<open>str.join\<close> accepts str items only\<close>
  "str_item (JStr s) = Inr s"
| "str_item _ = Inl TypeError"

type_synonym datetime = int \<comment> \<open>a reading of \<open>datetime.now()\<close>, in microseconds since the epoch\<close>

record study_plan =
  created_at :: datetime \<comment> \<open>the reading whose \<open>isoformat()\<close> the source stores\<close>
  duration_days :: int
  syllabus_analysis :: json
  learning_analysis :: learning_analysis
  schedule :: json
  resources :: json
  progress_tracking :: progress_tracking_rec

definition create_study_plan ::
  "loader \<Rightarrow> client \<Rightarrow> datetime \<Rightarrow> string \<Rightarrow> string \<Rightarrow> int \<Rightarrow> exn + study_plan" where
  \<comment> \<open>the \<open>except Exception\<close> clause logs and re-raises, so every exception leaves the function\<close>
  "create_study_plan loads kickoff now syllabus_text learning_preferences study_duration_days =
     (let learning = analyze_learning_preferences_local learning_preferences;
          style = primary_learning_style learning
      in
      and_then (kickoff (SyllabusTask (take 2000 syllabus_text))) (\<lambda>syllabus_result.
      and_then (extract_json_from_response loads syllabus_result) (\<lambda>syllabus_analysis_v.
      and_then (dict_get syllabus_analysis_v (ustr ''subjects'') (JList [])) (\<lambda>subjects.
      and_then (slice_to subjects 2) (\<lambda>first_subjects.
      and_then (kickoff (ScheduleTask study_duration_days first_subjects style)) (\<lambda>schedule_result.
      and_then (extract_json_from_response loads schedule_result) (\<lambda>schedule_v.
      and_then (dict_get syllabus_analysis_v (ustr ''subjects'') (JList [])) (\<lambda>subjects.
      and_then (slice_to subjects 3) (\<lambda>named_subjects.
      and_then (collect (\<lambda>s. getitem s (ustr ''name'')) (elements named_subjects)) (\<lambda>names.
      and_then (collect str_item names) (\<lambda>topics.
      and_then (kickoff (ResourceTask topics style)) (\<lambda>resource_result.
      and_then (extract_json_from_response loads resource_result) (\<lambda>resources_v.
      Inr \<lparr>created_at = now,
           duration_days = study_duration_days,
           syllabus_analysis = syllabus_analysis_v,
           learning_analysis = learning,
           schedule = schedule_v,
           resources = resources_v,
           progress_tracking = generate_progress_tracking_local study_duration_days\<rparr>)))))))))))))"

section \<open>The plan-generation endpoint and the plan store\<close>

text \<open>
  The request body after Flask has read it: \<open>request.get_json()\<close> or the form as a dict.
  A field of the body is classified by its Python type; lists and dicts carry no payload,
  because the endpoint only calls \<open>strip\<close> and \<open>int\<close> on a field.
\<close>

datatype pyfloat = Finite rat | PosInf | NegInf | NaN

datatype field = FStr string | FInt int | FBool bool | FFloat pyfloat | FNone | FList | FDict

datatype request_data =
  NotADict \<comment> \<open>a JSON body that is not an object\<close>
  | Dict "(string \<times> field) list"

definition data_get :: "(string \<times> field) list \<Rightarrow> string \<Rightarrow> field \<Rightarrow> field" where
  \<comment> \<open>\<open>data.get(key, default)\<close>\<close>
  "data_get kvs key dflt = (case map_of kvs key of Some v \<Rightarrow> v | None \<Rightarrow> dflt)"

fun field_strip :: "field \<Rightarrow> exn + string" where
  \<comment> \<open>\<open>v.strip()\<close>: only a str has the method\<close>
  "field_strip (FStr s) = Inr (strip s)"
| "field_strip _ = Inl AttributeError"

definition int_isspace :: "char \<Rightarrow> bool" where
  \<comment> \<open>the blanks \<open>int\<close> skips around a numeral\<close>
  "int_isspace c =
     (c \<in> set [CHR 0x09, CHR 0x0A, CHR 0x0B, CHR 0x0C, CHR 0x0D, CHR 0x20, CHR 0x85, CHR 0xA0])"

definition is_digit :: "char \<Rightarrow> bool" where
  "is_digit c = (c \<in> set ''0123456789'')"

definition digit_val :: "char \<Rightarrow> nat" where
  "digit_val c =
     (case map_of (zip ''0123456789'' [0, 1, 2, 3, 4, 5, 6, 7, 8, 9]) c of
        Some d \<Rightarrow> d | None \<Rightarrow> 0)"

fun int_digits :: "nat \<Rightarrow> string \<Rightarrow> nat option" where
  \<comment> \<open>the digits after the first one; a single underscore may stand between two digits\<close>
  "int_digits acc [] = Some acc"
| "int_digits acc [c] = (if is_digit c then Some (10 * acc + digit_val c) else None)"
| "int_digits acc (c # d # cs) =
     (if is_digit c then int_digits (10 * acc + digit_val c) (d # cs)
      else if c = CHR ''_'' \<and> is_digit d then int_digits (10 * acc + digit_val d) cs
      else None)"

definition int_numeral :: "string \<Rightarrow> nat option" where
  "int_numeral s =
     (case s of [] \<Rightarrow> None
      | c # cs \<Rightarrow> if is_digit c then int_digits (digit_val c) cs else None)"

definition int_of_str :: "string \<Rightarrow> exn + int" where
  \<comment> \<open>\<open>int(s)\<close> for a str: blanks, an optional sign, a decimal numeral, blanks\<close>
  "int_of_str s =
     (let t = rev (dropWhile int_isspace (rev (dropWhile int_isspace s)));
          r = (case t of
                 c # cs \<Rightarrow>
                   if c = CHR ''-'' then map_option (\<lambda>n. - int n) (int_numeral cs)
                   else if c = CHR ''+'' then map_option int (int_numeral cs)
                   else map_option int (int_numeral t)
               | [] \<Rightarrow> None)
      in case r of Some i \<Rightarrow> Inr i | None \<Rightarrow> Inl ValueError)"

definition truncate_rat :: "rat \<Rightarrow> int" where
  \<comment> \<open>rounding toward zero\<close>
  "truncate_rat r = (if r < 0 then - \<lfloor>- r\<rfloor> else \<lfloor>r\<rfloor>)"

fun py_int :: "field \<Rightarrow> exn + int" where
  \<comment> \<open>\<open>int(v)\<close>\<close>
  "py_int (FInt i) = Inr i"
| "py_int (FBool b) = Inr (if b then 1 else 0)"
| "py_int (FStr s) = int_of_str s"
| "py_int (FFloat (Finite r)) = Inr (truncate_rat r)"
| "py_int (FFloat NaN) = Inl ValueError"
| "py_int (FFloat _) = Inl OverflowError"
| "py_int _ = Inl TypeError"

definition request_fields :: "exn + request_data \<Rightarrow> exn + string \<times> string \<times> int" where
  \<comment> \<open>the first statements of the \<open>try\<close> block of \<open>generate_plan\<close>, up to \<open>duration\<close>\<close>
  "request_fields request =
     and_then request (\<lambda>data.
       case data of
         NotADict \<Rightarrow> Inl AttributeError
       | Dict kvs \<Rightarrow>
           and_then (field_strip (data_get kvs ''syllabus_text'' (FStr []))) (\<lambda>syllabus_text.
           and_then (field_strip (data_get kvs ''learning_preferences'' (FStr []))) (\<lambda>learning_prefs.
           and_then (py_int (data_get kvs ''study_duration_days'' (FInt 30))) (\<lambda>duration.
           Inr (syllabus_text, learning_prefs, duration)))))"

record summary =
  summary_created_at :: datetime
  summary_duration_days :: int
  total_estimated_hours :: json
  summary_learning_style :: string

datatype body =
  Error string \<comment> \<open>\<open>{'error': message}\<close>\<close>
  | ErrorOf exn \<comment> \<open>\<open>{'error': str(e)}\<close>\<close>
  | Success string summary \<comment> \<open>the plan identifier and the summary\<close>

record response =
  status :: nat
  body :: body

type_synonym plan_store = "string \<rightharpoonup> study_plan"

definition timestamp_seconds :: "datetime \<Rightarrow> int" where
  \<comment> \<open>\<open>int(now.timestamp())\<close>: whole seconds, rounded toward zero\<close>
  "timestamp_seconds now = (if now < 0 then - ((- now) div 1000000) else now div 1000000)"

definition new_plan_id :: "datetime \<Rightarrow> string" where
  "new_plan_id now = ''plan_'' @ str_int (timestamp_seconds now)"

definition generate_plan_try ::
  "loader \<Rightarrow> client \<Rightarrow> datetime \<Rightarrow> datetime \<Rightarrow> plan_store \<Rightarrow> exn + request_data
     \<Rightarrow> plan_store \<times> (exn + response)" where
  \<comment> \<open>the \<open>try\<close> block: the store as the block leaves it, and the response or the exception.
      \<open>now_plan\<close> is the clock reading inside \<open>create_study_plan\<close>, \<open>now_id\<close> the later one
      that names the plan\<close>
  "generate_plan_try loads kickoff now_plan now_id study_plans request =
     (case request_fields request of
        Inl e \<Rightarrow> (study_plans, Inl e)
      | Inr (syllabus_text, learning_prefs, duration) \<Rightarrow>
          if syllabus_text = [] then
            (study_plans, Inr \<lparr>status = 400, body = Error ''Syllabus text is required''\<rparr>)
          else if learning_prefs = [] then
            (study_plans, Inr \<lparr>status = 400, body = Error ''Learning preferences are required''\<rparr>)
          else
            (case create_study_plan loads kickoff now_plan syllabus_text learning_prefs duration of
               Inl e \<Rightarrow> (study_plans, Inl e)
             | Inr plan \<Rightarrow>
                 (let plan_id = new_plan_id now_id;
                      study_plans' = study_plans(plan_id \<mapsto> plan)
                  in case dict_get (syllabus_analysis plan) (ustr ''total_estimated_hours'')
                            (JStr (ustr ''N/A'')) of
                       Inl e \<Rightarrow> (study_plans', Inl e)
                     | Inr hours \<Rightarrow>
                         (study_plans',
                          Inr \<lparr>status = 200,
                               body = Success plan_id
                                 \<lparr>summary_created_at = created_at plan,
                                  summary_duration_days = duration_days plan,
                                  total_estimated_hours = hours,
                                  summary_learning_style =
                                    primary_learning_style (learning_analysis plan)\<rparr>\<rparr>))))"

definition generate_plan ::
  "loader \<Rightarrow> client \<Rightarrow> datetime \<Rightarrow> datetime \<Rightarrow> plan_store \<Rightarrow> exn + request_data
     \<Rightarrow> plan_store \<times> response" where
  \<comment> \<open>\<open>except Exception\<close>: any exception of the block becomes the status-500 answer\<close>
  "generate_plan loads kickoff now_plan now_id study_plans request =
     (case generate_plan_try loads kickoff now_plan now_id study_plans request of
        (study_plans', Inr r) \<Rightarrow> (study_plans', r)
      | (study_plans', Inl e) \<Rightarrow> (study_plans', \<lparr>status = 500, body = ErrorOf e\<rparr>))"
section \<open>A reference decoder\<close>

text \<open>
  The decoder that stands for \<open>json.loads\<close> wherever a statement needs a concrete one. It
  accepts the texts CPython's decoder accepts with its default settings and returns the
  same values: the JSON grammar, the constants \<open>NaN\<close>, \<open>Infinity\<close> and \<open>-Infinity\<close>, blanks
  limited to space, tab, line feed and carriage return, no control character inside a
  string, a later duplicate key replacing the value of the earlier one. It reads the text
  in two passes, tokens and then values. Limits of the interpreter (recursion depth, the
  digit limit of \<open>int\<close>) are not part of the model.
\<close>

datatype token =
  LBrace | RBrace | LBracket | RBracket | Comma | Colon
  | TStr unicode | TInt int | TFloat string | TTrue | TFalse | TNull

datatype sitem =
  Plain nat \<comment> \<open>a character of the text, or a one-letter escape\<close>
  | UEsc nat \<comment> \<open>an escape \<open>\uXXXX\<close>\<close>

fun join_surrogates :: "sitem list \<Rightarrow> unicode" where
  \<comment> \<open>an escaped high surrogate directly followed by an escaped low one is one code point\<close>
  "join_surrogates [] = []"
| "join_surrogates (Plain c # r) = c # join_surrogates r"
| "join_surrogates [UEsc c] = [c]"
| "join_surrogates (UEsc h # Plain c # r) = h # c # join_surrogates r"
| "join_surrogates (UEsc h # UEsc l # r) =
     (if 0xD800 \<le> h \<and> h \<le> 0xDBFF \<and> 0xDC00 \<le> l \<and> l \<le> 0xDFFF
      then (0x10000 + (h - 0xD800) * 0x400 + (l - 0xDC00)) # join_surrogates r
      else h # join_surrogates (UEsc l # r))"

datatype literal = LTrue | LFalse | LNull | LNaN | LInfinity | LNegInfinity

fun spelling :: "literal \<Rightarrow> string" where
  "spelling LTrue = ''true''"
| "spelling LFalse = ''false''"
| "spelling LNull = ''null''"
| "spelling LNaN = ''NaN''"
| "spelling LInfinity = ''Infinity''"
| "spelling LNegInfinity = ''-Infinity''"

fun literal_token :: "literal \<Rightarrow> token" where
  "literal_token LTrue = TTrue"
| "literal_token LFalse = TFalse"
| "literal_token LNull = TNull"
| "literal_token l = TFloat (spelling l)"

datatype num_state = NMinus | NZero | NInt | NDot | NFrac | NExp | NExpSign | NExpDigits

datatype lex_state =
  Default \<comment> \<open>between tokens\<close>
  | InStr "sitem list" \<comment> \<open>inside a string, with what was read of it\<close>
  | InEsc "sitem list" \<comment> \<open>after a backslash\<close>
  | InUni "sitem list" "nat list" \<comment> \<open>after \<open>\u\<close>, with the hex digits read\<close>
  | InNum num_state string \<comment> \<open>inside a numeral, with its text so far\<close>
  | InLit literal nat \<comment> \<open>inside a constant, with the number of characters matched\<close>

definition is_json_ws :: "char \<Rightarrow> bool" where
  "is_json_ws c = (c \<in> set [CHR 0x20, CHR 0x09, CHR 0x0A, CHR 0x0D])"

definition hex_val :: "char \<Rightarrow> nat option" where
  "hex_val c =
     map_of (zip ''0123456789abcdefABCDEF''
               [0, 1, 2, 3, 4, 5, 6, 7, 8, 9, 10, 11, 12, 13, 14, 15, 10, 11, 12, 13, 14, 15]) c"

definition simple_escape :: "char \<Rightarrow> nat option" where
  "simple_escape c =
     map_of [(CHR 0x22, 0x22), (CHR 0x5C, 0x5C), (CHR ''/'', 0x2F), (CHR ''b'', 0x08),
             (CHR ''f'', 0x0C), (CHR ''n'', 0x0A), (CHR ''r'', 0x0D), (CHR ''t'', 0x09)] c"

definition numeral_value :: "string \<Rightarrow> int" where
  \<comment> \<open>the integer a numeral without fraction and exponent denotes\<close>
  "numeral_value txt =
     (case txt of
        c # ds \<Rightarrow>
          if c = CHR ''-'' then - int (foldl (\<lambda>a d. 10 * a + digit_val d) 0 ds)
          else int (foldl (\<lambda>a d. 10 * a + digit_val d) 0 txt)
      | [] \<Rightarrow> 0)"

definition accepting :: "num_state \<Rightarrow> bool" where
  \<comment> \<open>the states in which the text read so far is a complete numeral\<close>
  "accepting q = (q \<in> set [NZero, NInt, NFrac, NExpDigits])"

definition num_token :: "num_state \<Rightarrow> string \<Rightarrow> token" where
  "num_token q txt = (if q = NZero \<or> q = NInt then TInt (numeral_value txt) else TFloat txt)"

fun num_step :: "num_state \<Rightarrow> char \<Rightarrow> num_state option" where
  "num_step NMinus c = (if c = CHR ''0'' then Some NZero else if is_digit c then Some NInt else None)"
| "num_step NZero c =
     (if c = CHR ''.'' then Some NDot else if c = CHR ''e'' \<or> c = CHR ''E'' then Some NExp else None)"
| "num_step NInt c =
     (if is_digit c then Some NInt else if c = CHR ''.'' then Some NDot
      else if c = CHR ''e'' \<or> c = CHR ''E'' then Some NExp else None)"
| "num_step NDot c = (if is_digit c then Some NFrac else None)"
| "num_step NFrac c =
     (if is_digit c then Some NFrac else if c = CHR ''e'' \<or> c = CHR ''E'' then Some NExp else None)"
| "num_step NExp c =
     (if c = CHR ''+'' \<or> c = CHR ''-'' then Some NExpSign
      else if is_digit c then Some NExpDigits else None)"
| "num_step NExpSign c = (if is_digit c then Some NExpDigits else None)"
| "num_step NExpDigits c = (if is_digit c then Some NExpDigits else None)"

definition start :: "char \<Rightarrow> (token list \<times> lex_state) option" where
  \<comment> \<open>one character read between tokens\<close>
  "start c =
     (if is_json_ws c then Some ([], Default)
      else if c = CHR ''{'' then Some ([LBrace], Default)
      else if c = CHR ''}'' then Some ([RBrace], Default)
      else if c = CHR ''['' then Some ([LBracket], Default)
      else if c = CHR '']'' then Some ([RBracket], Default)
      else if c = CHR '','' then Some ([Comma], Default)
      else if c = CHR '':'' then Some ([Colon], Default)
      else if c = CHR 0x22 then Some ([], InStr [])
      else if c = CHR ''-'' then Some ([], InNum NMinus [c])
      else if c = CHR ''0'' then Some ([], InNum NZero [c])
      else if is_digit c then Some ([], InNum NInt [c])
      else if c = CHR ''t'' then Some ([], InLit LTrue 1)
      else if c = CHR ''f'' then Some ([], InLit LFalse 1)
      else if c = CHR ''n'' then Some ([], InLit LNull 1)
      else if c = CHR ''N'' then Some ([], InLit LNaN 1)
      else if c = CHR ''I'' then Some ([], InLit LInfinity 1)
      else None)"

fun step :: "lex_state \<Rightarrow> char \<Rightarrow> (token list \<times> lex_state) option" where
  \<comment> \<open>one character: the tokens it completes and the next state, or \<open>None\<close> for a text
      that is not JSON\<close>
  "step Default c = start c"
| "step (InStr items) c =
     (if c = CHR 0x22 then Some ([TStr (join_surrogates items)], Default)
      else if c = CHR 0x5C then Some ([], InEsc items)
      else if (of_char c :: nat) < 0x20 then None
      else Some ([], InStr (items @ [Plain (of_char c)])))"
| "step (InEsc items) c =
     (if c = CHR ''u'' then Some ([], InUni items [])
      else case simple_escape c of
             Some cp \<Rightarrow> Some ([], InStr (items @ [Plain cp]))
           | None \<Rightarrow> None)"
| "step (InUni items ds) c =
     (case hex_val c of
        None \<Rightarrow> None
      | Some d \<Rightarrow>
          if length ds = 3
          then Some ([], InStr (items @ [UEsc (foldl (\<lambda>a x. 16 * a + x) 0 (ds @ [d]))]))
          else Some ([], InUni items (ds @ [d])))"
| "step (InNum q txt) c =
     (if q = NMinus \<and> c = CHR ''I'' then Some ([], InLit LNegInfinity 2)
      else case num_step q c of
             Some q' \<Rightarrow> Some ([], InNum q' (txt @ [c]))
           | None \<Rightarrow>
               if accepting q then
                 (case start c of
                    Some (ts, st) \<Rightarrow> Some (num_token q txt # ts, st)
                  | None \<Rightarrow> None)
               else None)"
| "step (InLit l k) c =
     (if k < length (spelling l) \<and> c = spelling l ! k then
        (if Suc k = length (spelling l) then Some ([literal_token l], Default)
         else Some ([], InLit l (Suc k)))
      else None)"

fun run :: "lex_state \<Rightarrow> string \<Rightarrow> (token list \<times> lex_state) option" where
  "run st [] = Some ([], st)"
| "run st (c # cs) =
     (case step st c of
        None \<Rightarrow> None
      | Some (ts, st') \<Rightarrow>
          (case run st' cs of
             None \<Rightarrow> None
           | Some (ts', st'') \<Rightarrow> Some (ts @ ts', st'')))"

fun finish :: "lex_state \<Rightarrow> token list option" where
  \<comment> \<open>the end of the text: only a numeral can be completed by it\<close>
  "finish Default = Some []"
| "finish (InNum q txt) = (if accepting q then Some [num_token q txt] else None)"
| "finish _ = None"

definition lex :: "string \<Rightarrow> token list option" where
  "lex s =
     (case run Default s of
        None \<Rightarrow> None
      | Some (ts, st) \<Rightarrow> (case finish st of None \<Rightarrow> None | Some ts' \<Rightarrow> Some (ts @ ts')))"

fun dict_set :: "(unicode \<times> json) list \<Rightarrow> unicode \<Rightarrow> json \<Rightarrow> (unicode \<times> json) list" where
  \<comment> \<open>\<open>d[k] = v\<close>: a key already present keeps its place\<close>
  "dict_set [] k v = [(k, v)]"
| "dict_set ((k', v') # kvs) k v = (if k' = k then (k, v) # kvs else (k', v') # dict_set kvs k v)"

datatype frame =
  FArr "json list" \<comment> \<open>an open list with its items\<close>
  | FObj "(unicode \<times> json) list" \<comment> \<open>an open object with its items\<close>
  | FObjK "(unicode \<times> json) list" unicode \<comment> \<open>an open object and the key that awaits its value\<close>

datatype parse_state =
  PValue \<comment> \<open>a value must follow\<close>
  | PArrStart \<comment> \<open>after \<open>[\<close>\<close>
  | PObjStart \<comment> \<open>after \<open>{\<close>\<close>
  | PKey \<comment> \<open>after a comma inside an object\<close>
  | PColon unicode \<comment> \<open>after a key\<close>
  | PAfter json \<comment> \<open>after a complete value\<close>

fun scalar :: "token \<Rightarrow> json option" where
  "scalar (TStr s) = Some (JStr s)"
| "scalar (TInt i) = Some (JInt i)"
| "scalar (TFloat f) = Some (JFloat f)"
| "scalar TTrue = Some (JBool True)"
| "scalar TFalse = Some (JBool False)"
| "scalar TNull = Some JNull"
| "scalar _ = None"

fun open_value :: "frame list \<Rightarrow> token \<Rightarrow> (parse_state \<times> frame list) option" where
  "open_value stack LBracket = Some (PArrStart, FArr [] # stack)"
| "open_value stack LBrace = Some (PObjStart, FObj [] # stack)"
| "open_value stack t = map_option (\<lambda>v. (PAfter v, stack)) (scalar t)"

fun pstep :: "parse_state \<Rightarrow> frame list \<Rightarrow> token \<Rightarrow> (parse_state \<times> frame list) option" where
  "pstep PValue stack t = open_value stack t"
| "pstep PArrStart stack t =
     (if t = RBracket then Some (PAfter (JList []), tl stack) else open_value stack t)"
| "pstep PObjStart stack t =
     (case t of
        RBrace \<Rightarrow> Some (PAfter (JDict []), tl stack)
      | TStr k \<Rightarrow> Some (PColon k, stack)
      | _ \<Rightarrow> None)"
| "pstep PKey stack t = (case t of TStr k \<Rightarrow> Some (PColon k, stack) | _ \<Rightarrow> None)"
| "pstep (PColon k) stack t =
     (case stack of
        FObj kvs # rest \<Rightarrow> if t = Colon then Some (PValue, FObjK kvs k # rest) else None
      | _ \<Rightarrow> None)"
| "pstep (PAfter v) stack t =
     (case stack of
        FArr items # rest \<Rightarrow>
          if t = Comma then Some (PValue, FArr (items @ [v]) # rest)
          else if t = RBracket then Some (PAfter (JList (items @ [v])), rest)
          else None
      | FObjK kvs k # rest \<Rightarrow>
          if t = Comma then Some (PKey, FObj (dict_set kvs k v) # rest)
          else if t = RBrace then Some (PAfter (JDict (dict_set kvs k v)), rest)
          else None
      | _ \<Rightarrow> None)"

fun parse_tokens :: "parse_state \<Rightarrow> frame list \<Rightarrow> token list \<Rightarrow> json option" where
  "parse_tokens st stack [] = (case (st, stack) of (PAfter v, []) \<Rightarrow> Some v | _ \<Rightarrow> None)"
| "parse_tokens st stack (t # ts) =
     (case pstep st stack t of
        None \<Rightarrow> None
      | Some (st', stack') \<Rightarrow> parse_tokens st' stack' ts)"

definition json_loads :: loader where
  "json_loads s =
     (case lex s of
        None \<Rightarrow> Inl JSONDecodeError
      | Some ts \<Rightarrow>
          (case parse_tokens PValue [] ts of
             None \<Rightarrow> Inl JSONDecodeError
           | Some v \<Rightarrow> Inr v))"

section \<open>Generation clients for concrete runs\<close>

definition scripted_client :: "string \<Rightarrow> string \<Rightarrow> string \<Rightarrow> client" where
  \<comment> \<open>a client that answers each of the three roles with a fixed text\<close>
  "scripted_client syllabus_out schedule_out resource_out t =
     (case t of
        SyllabusTask _ \<Rightarrow> Inr syllabus_out
      | ScheduleTask _ _ _ \<Rightarrow> Inr schedule_out
      | ResourceTask _ _ \<Rightarrow> Inr resource_out)"

definition unreachable_client :: client where
  \<comment> \<open>a client whose every invocation fails\<close>
  "unreachable_client t = Inl (OtherError ''connection refused'')"

definition example_client :: client where
  \<comment> \<open>three well-formed answers\<close>
  "example_client =
     scripted_client ''{\"subjects\": []}'' ''{\"schedule\": []}''
       ''{\"resource_recommendations\": []}''"

definition example_request :: "field \<Rightarrow> exn + request_data" where
  \<comment> \<open>a request body with both texts and the given \<open>study_duration_days\<close>\<close>
  "example_request duration =
     Inr (Dict [(''syllabus_text'', FStr ''Linear algebra''),
                (''learning_preferences'', FStr ''I like VISUAL aids''),
                (''study_duration_days'', duration)])"

section \<open>Properties of the local helpers\<close>

lemma startswith_iff: "startswith s p \<longleftrightarrow> (\<exists>r. s = p @ r)"
  by (induction s p rule: startswith.induct) auto

lemma contains_iff: "contains s sub \<longleftrightarrow> (\<exists>pre post. s = pre @ sub @ post)"
proof (induction s)
  case Nil
  then show ?case by simp
next
  case (Cons c cs)
  show ?case
  proof
    assume "contains (c # cs) sub"
    then consider "startswith (c # cs) sub" | "contains cs sub" by auto
    then show "\<exists>pre post. c # cs = pre @ sub @ post"
    proof cases
      case 1
      then obtain r where "c # cs = sub @ r" by (auto simp: startswith_iff)
      then have "c # cs = [] @ sub @ r" by simp
      then show ?thesis by blast
    next
      case 2
      then obtain pre post where "cs = pre @ sub @ post" using Cons.IH by blast
      then have "c # cs = (c # pre) @ sub @ post" by simp
      then show ?thesis by blast
    qed
  next
    assume "\<exists>pre post. c # cs = pre @ sub @ post"
    then obtain pre post where eq: "c # cs = pre @ sub @ post" by blast
    show "contains (c # cs) sub"
    proof (cases pre)
      case Nil
      with eq have "startswith (c # cs) sub" by (auto simp: startswith_iff)
      then show ?thesis by simp
    next
      case (Cons x pre')
      with eq have "cs = pre' @ sub @ post" by simp
      then have "contains cs sub" using Cons.IH by blast
      then show ?thesis by simp
    qed
  qed
qed

lemma lower_append: "lower (a @ b) = lower a @ lower b"
  by (simp add: lower_def)

lemma methods_get_simps:
  "methods_get ''visual'' d = [''video lectures'', ''diagrams'', ''mind maps'', ''flashcards'']"
  "methods_get ''auditory'' d = [''podcasts'', ''audio books'', ''group discussions'', ''lectures'']"
  "methods_get ''kinesthetic'' d = [''hands-on practice'', ''labs'', ''projects'', ''simulations'']"
  "methods_get ''reading-writing'' d = [''textbooks'', ''note-taking'', ''written summaries'', ''articles'']"
  by (simp_all add: methods_get_def methods_def)

text \<open>
  Claim C7. For every preference text the classifier lower-cases it and takes the first
  category that matches, in the order visual, auditory (\<open>audio\<close> or \<open>auditory\<close>),
  kinesthetic (\<open>kinesthetic\<close> or \<open>hands\<close>), reading-writing. The result carries the four
  methods listed for that category, and a text that contains \<open>visual\<close> in any mix of
  upper and lower case is classified as visual.
\<close>

theorem preference_classifier_priority:
  "let l = lower prefs; r = analyze_learning_preferences_local prefs
   in primary_learning_style r =
        (if contains l ''visual'' then ''visual''
         else if contains l ''audio'' \<or> contains l ''auditory'' then ''auditory''
         else if contains l ''kinesthetic'' \<or> contains l ''hands'' then ''kinesthetic''
         else ''reading-writing'')
      \<and> (primary_learning_style r, recommended_study_methods r) \<in> set methods
      \<and> length (recommended_study_methods r) = 4
      \<and> ((\<exists>pre w post. prefs = pre @ w @ post \<and> lower w = ''visual'')
           \<longrightarrow> primary_learning_style r = ''visual'')"
proof -
  have vis: "contains (lower prefs) ''visual''"
    if "\<exists>pre w post. prefs = pre @ w @ post \<and> lower w = ''visual''"
  proof -
    from that obtain pre w post where "prefs = pre @ w @ post" "lower w = ''visual''" by blast
    then have "lower prefs = lower pre @ ''visual'' @ lower post" by (simp add: lower_append)
    then show ?thesis unfolding contains_iff by blast
  qed
  show ?thesis
    unfolding Let_def
    apply (intro conjI impI)
    subgoal by (simp add: analyze_learning_preferences_local_def Let_def)
    subgoal by (simp add: analyze_learning_preferences_local_def Let_def methods_get_simps methods_def)
    subgoal by (simp add: analyze_learning_preferences_local_def Let_def methods_get_simps)
    subgoal using vis by (simp add: analyze_learning_preferences_local_def Let_def)
    done
qed

theorem preference_classifier_priority_witness:
  "(\<exists>pre w post. ''I like VISUAL aids and audio'' = pre @ w @ post \<and> lower w = ''visual'')
   \<and> primary_learning_style (analyze_learning_preferences_local ''I like VISUAL aids and audio'') = ''visual''
   \<and> recommended_study_methods (analyze_learning_preferences_local ''I like VISUAL aids and audio'')
       = [''video lectures'', ''diagrams'', ''mind maps'', ''flashcards'']"
proof -
  have "''I like VISUAL aids and audio'' = ''I like '' @ ''VISUAL'' @ '' aids and audio''" by simp
  moreover have "lower ''VISUAL'' = ''visual''"
    by (simp add: lower_def lower_char_def upper_chars_def lower_chars_def)
  ultimately have h: "\<exists>pre w post. ''I like VISUAL aids and audio'' = pre @ w @ post \<and> lower w = ''visual''"
    by blast
  with preference_classifier_priority [of "''I like VISUAL aids and audio''"]
  have p: "primary_learning_style (analyze_learning_preferences_local ''I like VISUAL aids and audio'') = ''visual''"
    and m: "(primary_learning_style (analyze_learning_preferences_local ''I like VISUAL aids and audio''),
             recommended_study_methods (analyze_learning_preferences_local ''I like VISUAL aids and audio'')) \<in> set methods"
    unfolding Let_def by blast+
  from m p have "recommended_study_methods (analyze_learning_preferences_local ''I like VISUAL aids and audio'')
       = [''video lectures'', ''diagrams'', ''mind maps'', ''flashcards'']"
    by (simp add: methods_def)
  with h p show ?thesis by blast
qed

lemma str_int_digits:
  "str_int 1 = ''1''" "str_int 2 = ''2''" "str_int 3 = ''3''" "str_int 4 = ''4''"
  by (simp_all add: str_int_def str_nat.simps digit_char_def)

text \<open>
  Claim C6. For a positive duration the scheduler returns exactly four checkpoints; with
  \<open>interval = max 7 (d div 4)\<close> the \<open>i\<close>-th one has day \<open>min d (i * interval)\<close>, the label
  \<open>Review Week i\<close> and the fixed assessment. 28 days give the days 7, 14, 21, 28 and
  10 days give 7, 10, 10, 10.
\<close>

theorem checkpoint_scheduler_schedule:
  assumes "0 < d"
  shows "checkpoint_schedule (generate_progress_tracking_local d) =
           map (\<lambda>(i, label).
                  \<lparr>day = min d (i * max 7 (d div 4)),
                   checkpoint = label,
                   assessment = ''Quiz + practical exercise''\<rparr>)
               [(1, ''Review Week 1''), (2, ''Review Week 2''),
                (3, ''Review Week 3''), (4, ''Review Week 4'')]
         \<and> length (checkpoint_schedule (generate_progress_tracking_local d)) = 4
         \<and> map day (checkpoint_schedule (generate_progress_tracking_local 28)) = [7, 14, 21, 28]
         \<and> map day (checkpoint_schedule (generate_progress_tracking_local 10)) = [7, 10, 10, 10]"
  by (simp add: generate_progress_tracking_local_def make_checkpoint_def str_int_digits Let_def)

theorem checkpoint_scheduler_schedule_witness:
  "(0::int) < 40
   \<and> checkpoint_schedule (generate_progress_tracking_local 40) =
       [\<lparr>day = 10, checkpoint = ''Review Week 1'', assessment = ''Quiz + practical exercise''\<rparr>,
        \<lparr>day = 20, checkpoint = ''Review Week 2'', assessment = ''Quiz + practical exercise''\<rparr>,
        \<lparr>day = 30, checkpoint = ''Review Week 3'', assessment = ''Quiz + practical exercise''\<rparr>,
        \<lparr>day = 40, checkpoint = ''Review Week 4'', assessment = ''Quiz + practical exercise''\<rparr>]"
proof -
  have h: "(0::int) < 40" by simp
  from checkpoint_scheduler_schedule [OF h] show ?thesis by simp
qed
section \<open>Properties of the string functions\<close>

lemma split_not_Nil: "split sep s \<noteq> []"
  by (induction s) (auto split: list.splits)

lemma split_append_sep: "split sep (a @ sep # b) = split sep a @ split sep b"
proof (induction a)
  case Nil
  then show ?case by simp
next
  case (Cons c a)
  obtain l ls where "split sep a = l # ls"
    using split_not_Nil [of sep a] by (cases "split sep a") auto
  with Cons show ?case by simp
qed

lemma split_no_sep: "sep \<notin> set a \<Longrightarrow> split sep a = [a]"
  by (induction a) auto

lemma join_Cons_Cons: "join sep ((c # l) # ls) = c # join sep (l # ls)"
  by (cases ls) auto

lemma join_split: "join [sep] (split sep s) = s"
proof (induction s)
  case Nil
  then show ?case by simp
next
  case (Cons c s)
  obtain l ls where eq: "split sep s = l # ls"
    using split_not_Nil [of sep s] by (cases "split sep s") auto
  with Cons show ?case by (auto simp: join_Cons_Cons)
qed

lemma split_lines:
  "split sep s = l0 # ls \<Longrightarrow>
     (\<exists>b. s = l0 @ b) \<and> sep \<notin> set l0 \<and> (\<forall>l\<in>set ls. \<exists>a b. s = a @ sep # l @ b)"
proof (induction s arbitrary: l0 ls)
  case Nil
  then show ?case by simp
next
  case (Cons c s)
  obtain l1 ls1 where eq: "split sep s = l1 # ls1"
    using split_not_Nil [of sep s] by (cases "split sep s") auto
  from Cons.IH [OF eq] obtain b1 where s: "s = l1 @ b1" and nosep: "sep \<notin> set l1"
    and rest: "\<forall>l\<in>set ls1. \<exists>a b. s = a @ sep # l @ b" by blast
  show ?case
  proof (cases "c = sep")
    case True
    with Cons.prems eq have l0: "l0 = []" and ls: "ls = l1 # ls1" by auto
    have "\<exists>a b. c # s = a @ sep # l @ b" if "l \<in> set ls" for l
    proof (cases "l = l1")
      case True
      with s \<open>c = sep\<close> have "c # s = [] @ sep # l @ b1" by simp
      then show ?thesis by blast
    next
      case False
      with that ls have "l \<in> set ls1" by simp
      with rest obtain a b where "s = a @ sep # l @ b" by blast
      then have "c # s = (c # a) @ sep # l @ b" by simp
      then show ?thesis by blast
    qed
    with l0 show ?thesis by simp
  next
    case False
    with Cons.prems eq have l0: "l0 = c # l1" and ls: "ls = ls1" by auto
    have "\<exists>a b. c # s = a @ sep # l @ b" if "l \<in> set ls" for l
    proof -
      from that ls rest obtain a b where "s = a @ sep # l @ b" by blast
      then have "c # s = (c # a) @ sep # l @ b" by simp
      then show ?thesis by blast
    qed
    with l0 s nosep False show ?thesis by auto
  qed
qed

lemma split_prefix: "sep \<notin> set a \<Longrightarrow> split sep (a @ r) = (a @ hd (split sep r)) # tl (split sep r)"
proof (induction a)
  case Nil
  then show ?case using split_not_Nil [of sep r] by simp
next
  case (Cons c a)
  then show ?case by auto
qed

lemma strip_parts:
  "\<exists>w1 w2. s = w1 @ strip s @ w2 \<and> (\<forall>x\<in>set w1. py_isspace x) \<and> (\<forall>x\<in>set w2. py_isspace x)"
proof -
  let ?t = "dropWhile py_isspace s"
  have 1: "s = takeWhile py_isspace s @ ?t" by simp
  have "?t = rev (takeWhile py_isspace (rev ?t) @ dropWhile py_isspace (rev ?t))"
    by (simp only: takeWhile_dropWhile_id rev_rev_ident)
  also have "\<dots> = rev (dropWhile py_isspace (rev ?t)) @ rev (takeWhile py_isspace (rev ?t))"
    by (simp only: rev_append)
  finally have 2: "?t = strip s @ rev (takeWhile py_isspace (rev ?t))"
    by (simp only: strip_def)
  have 3: "\<forall>x\<in>set (takeWhile py_isspace s). py_isspace x"
    by (auto dest: set_takeWhileD)
  have 4: "\<forall>x\<in>set (rev (takeWhile py_isspace (rev ?t))). py_isspace x"
    by (auto dest: set_takeWhileD)
  from 1 2 have "s = takeWhile py_isspace s @ strip s @ rev (takeWhile py_isspace (rev ?t))"
    by simp
  with 3 4 show ?thesis by blast
qed

lemma strip_keeps_head:
  assumes "a \<noteq> []" "\<not> py_isspace (hd a)" "\<not> py_isspace (last a)"
  shows "strip (a @ b) = a @ rev (dropWhile py_isspace (rev b))"
proof -
  from assms have 1: "dropWhile py_isspace (a @ b) = a @ b"
    by (cases a) auto
  from assms have 2: "dropWhile py_isspace (rev a) = rev a"
    by (cases a rule: rev_cases) auto
  have "dropWhile py_isspace (rev b @ rev a) = dropWhile py_isspace (rev b) @ rev a"
    using 2 by (simp add: dropWhile_append)
  with 1 show ?thesis by (simp add: strip_def)
qed

lemma strip_fixed:
  assumes "a \<noteq> []" "\<not> py_isspace (hd a)" "\<not> py_isspace (last a)"
  shows "strip a = a"
  using strip_keeps_head [OF assms, of "[]"] by simp

lemma fence_not_space: "fence \<noteq> []" "\<not> py_isspace (hd fence)" "\<not> py_isspace (last fence)"
  by (simp_all add: fence_def py_isspace_def)

lemma startswith_append: "startswith (p @ r) p"
  by (simp add: startswith_iff)

section \<open>Properties of the reference decoder\<close>

lemma run_append:
  "run st (a @ b) =
     (case run st a of
        None \<Rightarrow> None
      | Some (ts, st') \<Rightarrow>
          (case run st' b of None \<Rightarrow> None | Some (ts', st'') \<Rightarrow> Some (ts @ ts', st'')))"
  by (induction a arbitrary: st) (auto split: option.splits)

lemma start_space: "py_isspace c \<Longrightarrow> start c = Some (ts, st) \<Longrightarrow> ts = [] \<and> st = Default"
  by (auto simp: py_isspace_def start_def is_json_ws_def is_digit_def split: if_splits)

lemma start_backtick: "start (CHR 0x60) = None"
  by (simp add: start_def is_json_ws_def is_digit_def)

lemma spelling_no_space: "c \<in> set (spelling l) \<Longrightarrow> \<not> py_isspace c"
  by (cases l) (auto simp: py_isspace_def)

lemma num_step_space: "py_isspace c \<Longrightarrow> num_step q c = None"
  by (cases q) (auto simp: py_isspace_def is_digit_def)

lemma step_space:
  assumes "py_isspace c" "step q c = Some (ts, q')" "finish q' = Some g"
  shows "finish q = Some (ts @ g)"
proof (cases q)
  case Default
  with assms show ?thesis using start_space [of c ts q'] by auto
next
  case (InStr items)
  with assms show ?thesis by (auto simp: py_isspace_def split: if_splits)
next
  case (InEsc items)
  with assms show ?thesis by (auto simp: py_isspace_def simple_escape_def split: if_splits)
next
  case (InUni items ds)
  with assms show ?thesis by (auto simp: py_isspace_def hex_val_def split: if_splits)
next
  case (InNum n numtext)
  from assms(1) have "c \<noteq> CHR ''I''" by (auto simp: py_isspace_def)
  with InNum assms num_step_space [of c n] show ?thesis
    using start_space [of c]
    by (auto split: if_splits option.splits)
next
  case (InLit l k)
  with assms spelling_no_space [of c l] show ?thesis
    by (auto split: if_splits)
qed

lemma run_space:
  "\<forall>x\<in>set w. py_isspace x \<Longrightarrow> run q w = Some (ts, q') \<Longrightarrow> finish q' = Some g
     \<Longrightarrow> finish q = Some (ts @ g)"
proof (induction w arbitrary: q ts)
  case Nil
  then show ?case by simp
next
  case (Cons c w)
  from Cons.prems(2) obtain t1 q1 t2 where s: "step q c = Some (t1, q1)"
    and r: "run q1 w = Some (t2, q')" and ts: "ts = t1 @ t2"
    by (auto split: option.splits)
  from Cons.IH [OF _ r Cons.prems(3)] Cons.prems(1) have "finish q1 = Some (t2 @ g)" by simp
  with step_space [OF _ s] Cons.prems(1) ts show ?case by simp
qed

lemma run_space_Default:
  "\<forall>x\<in>set w. py_isspace x \<Longrightarrow> run Default w = Some (ts, q') \<Longrightarrow> ts = [] \<and> q' = Default"
proof (induction w arbitrary: ts)
  case Nil
  then show ?case by simp
next
  case (Cons c w)
  from Cons.prems(2) obtain t1 q1 t2 where s: "start c = Some (t1, q1)"
    and r: "run q1 w = Some (t2, q')" and ts: "ts = t1 @ t2"
    by (auto split: option.splits)
  from start_space [OF _ s] Cons.prems(1) have "t1 = []" "q1 = Default" by simp_all
  with Cons.IH [of t2] Cons.prems(1) r ts show ?case by simp
qed

lemma lex_strip:
  assumes "lex s = Some toks"
  shows "lex (strip s) = Some toks"
proof -
  obtain w1 w2 where s: "s = w1 @ strip s @ w2"
    and w1: "\<forall>x\<in>set w1. py_isspace x" and w2: "\<forall>x\<in>set w2. py_isspace x"
    using strip_parts [of s] by blast
  from assms obtain ts q f where r: "run Default s = Some (ts, q)"
    and f: "finish q = Some f" and toks: "toks = ts @ f"
    by (auto simp: lex_def split: option.splits)
  from r s have "run Default (w1 @ strip s @ w2) = Some (ts, q)" by simp
  then obtain t1 q1 t23 where r1: "run Default w1 = Some (t1, q1)"
    and r23: "run q1 (strip s @ w2) = Some (t23, q)" and ts1: "ts = t1 @ t23"
    by (auto simp: run_append [of Default w1] split: option.splits)
  from run_space_Default [OF w1 r1] have "t1 = []" "q1 = Default" by simp_all
  with r23 ts1 have "run Default (strip s @ w2) = Some (ts, q)" by simp
  then obtain t2 q2 t3 where r2: "run Default (strip s) = Some (t2, q2)"
    and r3: "run q2 w2 = Some (t3, q)" and ts2: "ts = t2 @ t3"
    by (auto simp: run_append [of Default "strip s"] split: option.splits)
  from run_space [OF w2 r3 f] have "finish q2 = Some (t3 @ f)" .
  with r2 ts2 toks show ?thesis by (simp add: lex_def)
qed

lemma step_newline: "step q (CHR 0x0A) = Some (ts, q') \<Longrightarrow> q' = Default"
proof (cases q)
  case (InNum n numtext)
  assume "step q (CHR 0x0A) = Some (ts, q')"
  with InNum num_step_space [of "CHR 0x0A" n] show ?thesis
    by (auto simp: py_isspace_def start_def is_json_ws_def split: if_splits option.splits)
next
  case (InLit l k)
  assume "step q (CHR 0x0A) = Some (ts, q')"
  with InLit spelling_no_space [of "CHR 0x0A" l] show ?thesis
    by (auto simp: py_isspace_def split: if_splits)
qed (auto simp: start_def is_json_ws_def simple_escape_def hex_val_def split: if_splits)

lemma run_newline: "run q (a @ [CHR 0x0A]) = Some (ts, q') \<Longrightarrow> q' = Default"
  by (auto simp: run_append [of q a] split: option.splits dest: step_newline)

lemma run_space_backtick:
  assumes "\<forall>x\<in>set w. py_isspace x"
  shows "run Default (w @ CHR 0x60 # r) = None"
proof (cases "run Default w")
  case None
  then show ?thesis by (simp add: run_append [of Default w])
next
  case (Some p)
  obtain ts q where p: "p = (ts, q)" by (cases p)
  with Some run_space_Default [OF assms] have "q = Default" by simp
  with Some p show ?thesis by (simp add: run_append [of Default w] start_backtick)
qed

lemma lex_no_fence_line:
  assumes "lex s = Some toks" "l \<in> set (split (CHR 0x0A) s)"
  shows "\<not> startswith (strip l) fence"
proof
  assume "startswith (strip l) fence"
  then obtain p where p: "strip l = CHR 0x60 # p"
    by (auto simp: startswith_iff fence_def)
  obtain w1 w2 where l: "l = w1 @ strip l @ w2" and w1: "\<forall>x\<in>set w1. py_isspace x"
    using strip_parts [of l] by blast
  from l p have l': "l = w1 @ CHR 0x60 # (p @ w2)" by simp
  from assms(1) obtain ts q where r: "run Default s = Some (ts, q)"
    by (auto simp: lex_def split: option.splits)
  obtain l0 ls where sp: "split (CHR 0x0A) s = l0 # ls"
    using split_not_Nil [of "CHR 0x0A" s] by (cases "split (CHR 0x0A) s") auto
  from split_lines [OF sp] obtain b0 where b0: "s = l0 @ b0"
    and rest: "\<forall>l\<in>set ls. \<exists>a b. s = a @ CHR 0x0A # l @ b" by blast
  from assms(2) sp consider "l = l0" | "l \<in> set ls" by auto
  then show False
  proof cases
    case 1
    with b0 l' have "s = w1 @ CHR 0x60 # (p @ w2 @ b0)" by simp
    with run_space_backtick [OF w1, of "p @ w2 @ b0"] r show False by simp
  next
    case 2
    with rest obtain a b where "s = a @ CHR 0x0A # l @ b" by blast
    with l' have s: "s = (a @ [CHR 0x0A]) @ (w1 @ CHR 0x60 # (p @ w2 @ b))" by simp
    from r obtain t1 q1 where r1: "run Default (a @ [CHR 0x0A]) = Some (t1, q1)"
      and r2: "run q1 (w1 @ CHR 0x60 # (p @ w2 @ b)) \<noteq> None"
      unfolding s run_append [of Default "a @ [CHR 0x0A]"]
      by (auto split: option.splits)
    from run_newline [OF r1] have "q1 = Default" .
    with r2 run_space_backtick [OF w1, of "p @ w2 @ b"] show False by simp
  qed
qed

lemma lex_fence: "startswith s fence \<Longrightarrow> lex s = None"
  by (auto simp: startswith_iff fence_def lex_def start_backtick)


lemma json_loads_strip: "json_loads s = Inr v \<Longrightarrow> json_loads (strip s) = Inr v"
  by (auto simp: json_loads_def lex_strip split: option.splits)

lemma json_loads_fence: "startswith s fence \<Longrightarrow> json_loads s = Inl JSONDecodeError"
  by (simp add: json_loads_def lex_fence)

lemma json_loads_no_fence_line:
  "json_loads s = Inr v \<Longrightarrow> l \<in> set (split (CHR 0x0A) s) \<Longrightarrow> \<not> startswith (strip l) fence"
  by (auto simp: json_loads_def split: option.splits dest: lex_no_fence_line)

section \<open>Properties of the response extractor\<close>

lemma find_fences_skip:
  "\<forall>l\<in>set ls. \<not> startswith (strip l) fence \<Longrightarrow>
     find_fences i (ls @ rest) start_idx end_idx = find_fences (i + length ls) rest start_idx end_idx"
  by (induction ls arbitrary: i) (auto simp: Let_def)

lemma strip_fence_line: "startswith (strip (fence @ r)) fence"
  by (simp add: strip_keeps_head [OF fence_not_space] startswith_iff)

lemma newline_not_in_fence: "CHR 0x0A \<notin> set fence"
  by (simp add: fence_def)

lemma remove_code_fences_closed:
  assumes tag: "CHR 0x0A \<notin> set tag"
    and lines: "\<forall>l\<in>set (split (CHR 0x0A) s). \<not> startswith (strip l) fence"
  shows "remove_code_fences (fence @ tag @ [CHR 0x0A] @ s @ [CHR 0x0A] @ fence) = strip s"
proof -
  let ?nl = "CHR 0x0A"
  let ?text = "fence @ tag @ ?nl # s @ ?nl # fence"
  let ?n = "length (split ?nl s)"
  have ne: "?text \<noteq> []" using fence_not_space by simp
  have "hd ?text = hd fence" "last ?text = last fence" using fence_not_space by simp_all
  with fence_not_space have "\<not> py_isspace (hd ?text)" "\<not> py_isspace (last ?text)" by simp_all
  from strip_fixed [OF ne this] have st: "strip ?text = ?text" .
  have sw: "startswith ?text fence" by (simp add: startswith_iff)
  have "split ?nl ?text = split ?nl (fence @ tag) @ split ?nl (s @ ?nl # fence)"
    using split_append_sep [of ?nl "fence @ tag" "s @ ?nl # fence"] by simp
  also have "split ?nl (fence @ tag) = [fence @ tag]"
    using tag newline_not_in_fence by (simp add: split_no_sep)
  also have "split ?nl (s @ ?nl # fence) = split ?nl s @ [fence]"
    using newline_not_in_fence by (simp add: split_append_sep split_no_sep)
  finally have sp: "split ?nl ?text = (fence @ tag) # split ?nl s @ [fence]" by simp
  have "find_fences 0 ((fence @ tag) # split ?nl s @ [fence]) None None
          = find_fences 1 (split ?nl s @ [fence]) (Some 1) None"
    using strip_fence_line [of tag] by (simp add: Let_def)
  also have "\<dots> = find_fences (1 + ?n) [fence] (Some 1) None"
    using find_fences_skip [OF lines] by simp
  also have "\<dots> = (Some 1, Some (1 + ?n))"
    using strip_fence_line [of "[]"] by (simp add: Let_def)
  finally have ff: "find_fences 0 (split ?nl ?text) None None = (Some 1, Some (1 + ?n))"
    using sp by simp
  have sl: "slice (split ?nl ?text) 1 (1 + ?n) = split ?nl s"
    unfolding sp by (simp add: slice_def)
  have "remove_code_fences ?text = strip s"
    unfolding remove_code_fences_def st Let_def
    using sw ff sl by (simp add: truthy_def join_split)
  then show ?thesis by simp
qed

lemma remove_code_fences_open:
  assumes "startswith (strip text) fence"
    and "\<forall>l\<in>set (tl (split (CHR 0x0A) (strip text))). \<not> startswith (strip l) fence"
  shows "remove_code_fences text = strip text"
proof -
  let ?nl = "CHR 0x0A"
  from assms(1) obtain r where r: "strip text = fence @ r" by (auto simp: startswith_iff)
  have sp: "split ?nl (strip text) = (fence @ hd (split ?nl r)) # tl (split ?nl r)"
    unfolding r using newline_not_in_fence by (rule split_prefix)
  with assms(2) have rest: "\<forall>l\<in>set (tl (split ?nl r)). \<not> startswith (strip l) fence" by simp
  have "find_fences 0 (split ?nl (strip text)) None None
          = find_fences 1 (tl (split ?nl r) @ []) (Some 1) None"
    unfolding sp using strip_fence_line [of "hd (split ?nl r)"] by (simp add: Let_def)
  also have "\<dots> = (Some 1, None)"
    unfolding find_fences_skip [OF rest] by simp
  finally show ?thesis
    using assms(1) by (simp add: remove_code_fences_def Let_def)
qed

lemma remove_code_fences_plain: "\<not> startswith (strip text) fence \<Longrightarrow> remove_code_fences text = strip text"
  by (simp add: remove_code_fences_def Let_def)


lemmas decoder_defs =
  json_loads_def lex_def start_def is_json_ws_def is_digit_def digit_val_def hex_val_def
  simple_escape_def accepting_def num_token_def numeral_value_def ustr_def

lemmas text_defs = strip_def py_isspace_def fence_def truthy_def slice_def



text \<open>
  Claim C4. Round trip: for every text \<open>s\<close> that \<open>json.loads\<close> accepts, in particular every
  serialization of a JSON object, the extractor applied to \<open>s\<close> between an opening fence
  line, with or without a language tag, and a closing fence line returns the value of
  parsing \<open>s\<close> itself.
\<close>

theorem fenced_round_trip:
  assumes "json_loads s = Inr v" and "CHR 0x0A \<notin> set tag"
  shows "extract_json_from_response json_loads (fence @ tag @ [CHR 0x0A] @ s @ [CHR 0x0A] @ fence)
           = Inr v"
proof -
  from assms(1) have "\<forall>l\<in>set (split (CHR 0x0A) s). \<not> startswith (strip l) fence"
    by (auto dest: json_loads_no_fence_line)
  from remove_code_fences_closed [OF assms(2) this] json_loads_strip [OF assms(1)]
  show ?thesis by (simp add: extract_json_from_response_def)
qed

theorem fenced_round_trip_witness:
  "json_loads ''{\"subjects\": [],\<newline> \"total_estimated_hours\": 100}''
     = Inr (JDict [(ustr ''subjects'', JList []), (ustr ''total_estimated_hours'', JInt 100)])
   \<and> CHR 0x0A \<notin> set ''json''
   \<and> extract_json_from_response json_loads
        (''```json\<newline>{\"subjects\": [],\<newline> \"total_estimated_hours\": 100}\<newline>```'')
     = Inr (JDict [(ustr ''subjects'', JList []), (ustr ''total_estimated_hours'', JInt 100)])"
proof -
  have 1: "json_loads ''{\"subjects\": [],\<newline> \"total_estimated_hours\": 100}''
     = Inr (JDict [(ustr ''subjects'', JList []), (ustr ''total_estimated_hours'', JInt 100)])"
    by (simp add: decoder_defs)
  have 2: "CHR 0x0A \<notin> set ''json''" by simp
  from fenced_round_trip [OF 1 2] 1 2 show ?thesis by (simp add: fence_def)
qed

text \<open>
  Claim C5. When the trimmed text begins with a fence and no later line begins, once
  trimmed, with a fence, no fence is removed: the parser receives the trimmed text with
  its opening fence, rejects it, and the result is the sentinel.
\<close>

theorem unclosed_fence_gives_sentinel:
  assumes "startswith (strip text) fence"
    and "\<forall>l\<in>set (tl (split (CHR 0x0A) (strip text))). \<not> startswith (strip l) fence"
  shows "remove_code_fences text = strip text
         \<and> json_loads (strip text) = Inl JSONDecodeError
         \<and> extract_json_from_response json_loads text = Inr parse_failure"
proof -
  from remove_code_fences_open [OF assms] have 1: "remove_code_fences text = strip text" .
  from json_loads_fence [OF assms(1)] have 2: "json_loads (strip text) = Inl JSONDecodeError" .
  from 1 2 show ?thesis by (simp add: extract_json_from_response_def)
qed

theorem unclosed_fence_gives_sentinel_witness:
  "startswith (strip '' ```json\<newline>{\"a\": 1}\<newline>'') fence
   \<and> map (\<lambda>l. startswith (strip l) fence)
         (tl (split (CHR 0x0A) (strip '' ```json\<newline>{\"a\": 1}\<newline>''))) = [False]
   \<and> remove_code_fences '' ```json\<newline>{\"a\": 1}\<newline>'' = ''```json\<newline>{\"a\": 1}''
   \<and> extract_json_from_response json_loads '' ```json\<newline>{\"a\": 1}\<newline>'' = Inr parse_failure"
proof -
  have s: "strip '' ```json\<newline>{\"a\": 1}\<newline>'' = ''```json\<newline>{\"a\": 1}''"
    by (simp add: text_defs)
  have 1: "startswith (strip '' ```json\<newline>{\"a\": 1}\<newline>'') fence"
    unfolding s by (simp add: fence_def)
  have 2: "\<forall>l\<in>set (tl (split (CHR 0x0A) (strip '' ```json\<newline>{\"a\": 1}\<newline>''))).
         \<not> startswith (strip l) fence"
    unfolding s by (simp add: text_defs)
  have 3: "map (\<lambda>l. startswith (strip l) fence)
         (tl (split (CHR 0x0A) (strip '' ```json\<newline>{\"a\": 1}\<newline>''))) = [False]"
    unfolding s by (simp add: text_defs)
  from unclosed_fence_gives_sentinel [OF 1 2] 1 3 s show ?thesis by simp
qed

section \<open>Properties of the orchestrator and the endpoint\<close>

lemma dict_get_parse_failure:
  "dict_get parse_failure (ustr ''subjects'') dflt = Inr dflt"
  "dict_get parse_failure (ustr ''total_estimated_hours'') dflt = Inr dflt"
  by (simp_all add: parse_failure_def ustr_def)

lemma and_then_simps [simp]:
  "and_then (Inl e) f = Inl e"
  "and_then (Inr x) f = f x"
  by (simp_all add: and_then_def)

lemma and_then_Inr: "and_then m f = Inr y \<Longrightarrow> \<exists>x. m = Inr x \<and> f x = Inr y"
  by (cases m) auto

lemma dict_get_Inr: "dict_get v k d = Inr x \<Longrightarrow> \<exists>kvs. v = JDict kvs"
  by (cases v) auto

lemma create_study_plan_dict:
  assumes "create_study_plan loads kickoff now syllabus_text prefs d = Inr plan"
  shows "\<exists>kvs. syllabus_analysis plan = JDict kvs"
proof -
  from assms obtain r1 where "kickoff (SyllabusTask (take 2000 syllabus_text)) = Inr r1"
    and 1: "and_then (extract_json_from_response loads r1) (\<lambda>syllabus_analysis_v.
      and_then (dict_get syllabus_analysis_v (ustr ''subjects'') (JList [])) (\<lambda>subjects.
      and_then (slice_to subjects 2) (\<lambda>first_subjects.
      and_then (kickoff (ScheduleTask d first_subjects
                  (primary_learning_style (analyze_learning_preferences_local prefs)))) (\<lambda>schedule_result.
      and_then (extract_json_from_response loads schedule_result) (\<lambda>schedule_v.
      and_then (dict_get syllabus_analysis_v (ustr ''subjects'') (JList [])) (\<lambda>subjects.
      and_then (slice_to subjects 3) (\<lambda>named_subjects.
      and_then (collect (\<lambda>s. getitem s (ustr ''name'')) (elements named_subjects)) (\<lambda>names.
      and_then (collect str_item names) (\<lambda>topics.
      and_then (kickoff (ResourceTask topics
                  (primary_learning_style (analyze_learning_preferences_local prefs)))) (\<lambda>resource_result.
      and_then (extract_json_from_response loads resource_result) (\<lambda>resources_v.
      Inr \<lparr>created_at = now,
           duration_days = d,
           syllabus_analysis = syllabus_analysis_v,
           learning_analysis = analyze_learning_preferences_local prefs,
           schedule = schedule_v,
           resources = resources_v,
           progress_tracking = generate_progress_tracking_local d\<rparr>))))))))))) = Inr plan"
    unfolding create_study_plan_def Let_def by (auto dest!: and_then_Inr)
  from and_then_Inr [OF 1] obtain sa where
    2: "and_then (dict_get sa (ustr ''subjects'') (JList [])) (\<lambda>subjects.
      and_then (slice_to subjects 2) (\<lambda>first_subjects.
      and_then (kickoff (ScheduleTask d first_subjects
                  (primary_learning_style (analyze_learning_preferences_local prefs)))) (\<lambda>schedule_result.
      and_then (extract_json_from_response loads schedule_result) (\<lambda>schedule_v.
      and_then (dict_get sa (ustr ''subjects'') (JList [])) (\<lambda>subjects.
      and_then (slice_to subjects 3) (\<lambda>named_subjects.
      and_then (collect (\<lambda>s. getitem s (ustr ''name'')) (elements named_subjects)) (\<lambda>names.
      and_then (collect str_item names) (\<lambda>topics.
      and_then (kickoff (ResourceTask topics
                  (primary_learning_style (analyze_learning_preferences_local prefs)))) (\<lambda>resource_result.
      and_then (extract_json_from_response loads resource_result) (\<lambda>resources_v.
      Inr \<lparr>created_at = now,
           duration_days = d,
           syllabus_analysis = sa,
           learning_analysis = analyze_learning_preferences_local prefs,
           schedule = schedule_v,
           resources = resources_v,
           progress_tracking = generate_progress_tracking_local d\<rparr>)))))))))) = Inr plan"
    by blast
  from and_then_Inr [OF 2] obtain subjects where g: "dict_get sa (ustr ''subjects'') (JList []) = Inr subjects"
    by blast
  from dict_get_Inr [OF g] obtain kvs where sa: "sa = JDict kvs" by blast
  from 2 have "syllabus_analysis plan = sa"
    by (auto dest!: and_then_Inr)
  with sa show ?thesis by simp
qed

lemma create_study_plan_duration:
  "create_study_plan loads kickoff now syllabus_text prefs d = Inr plan \<Longrightarrow>
     duration_days plan = d \<and> created_at plan = now
     \<and> progress_tracking plan = generate_progress_tracking_local d
     \<and> learning_analysis plan = analyze_learning_preferences_local prefs"
  unfolding create_study_plan_def Let_def by (auto dest!: and_then_Inr)

lemma digit_val_digit_char: "d < 10 \<Longrightarrow> digit_val (digit_char d) = d"
proof -
  assume "d < 10"
  then have "d = 0 \<or> d = 1 \<or> d = 2 \<or> d = 3 \<or> d = 4 \<or> d = 5 \<or> d = 6 \<or> d = 7 \<or> d = 8 \<or> d = 9"
    by presburger
  then show ?thesis by (elim disjE) (simp_all add: digit_val_def digit_char_def)
qed

lemma digit_char_is_digit: "d < 10 \<Longrightarrow> is_digit (digit_char d)"
proof -
  assume "d < 10"
  then have "d = 0 \<or> d = 1 \<or> d = 2 \<or> d = 3 \<or> d = 4 \<or> d = 5 \<or> d = 6 \<or> d = 7 \<or> d = 8 \<or> d = 9"
    by presburger
  then show ?thesis by (elim disjE) (simp_all add: is_digit_def digit_char_def)
qed

lemma str_nat_value: "foldl (\<lambda>a c. 10 * a + digit_val c) 0 (str_nat n) = n"
proof (induction n rule: str_nat.induct)
  case (1 n)
  show ?case
  proof (cases "n < 10")
    case True
    then show ?thesis by (simp add: str_nat.simps [of n] digit_val_digit_char)
  next
    case False
    with "1" show ?thesis
      by (simp add: str_nat.simps [of n] digit_val_digit_char)
  qed
qed

lemma str_nat_inj:
  assumes "str_nat m = str_nat n"
  shows "m = n"
proof -
  have "m = foldl (\<lambda>a c. 10 * a + digit_val c) 0 (str_nat m)" by (simp only: str_nat_value)
  also have "\<dots> = foldl (\<lambda>a c. 10 * a + digit_val c) 0 (str_nat n)" by (simp only: assms)
  also have "\<dots> = n" by (simp only: str_nat_value)
  finally show ?thesis .
qed

lemma str_nat_head: "\<exists>c cs. str_nat n = c # cs \<and> is_digit c"
proof (induction n rule: str_nat.induct)
  case (1 n)
  show ?case
  proof (cases "n < 10")
    case True
    then show ?thesis by (simp add: str_nat.simps [of n] digit_char_is_digit)
  next
    case False
    with "1" obtain c cs where "str_nat (n div 10) = c # cs" "is_digit c" by blast
    with False have "str_nat n = c # (cs @ [digit_char (n mod 10)]) \<and> is_digit c"
      by (simp add: str_nat.simps [of n])
    then show ?thesis by blast
  qed
qed

lemma str_int_inj: "str_int i = str_int j \<Longrightarrow> i = j"
proof -
  assume eq: "str_int i = str_int j"
  have nd: "\<not> is_digit (CHR ''-'')" by (simp add: is_digit_def)
  obtain c cs where i: "str_nat (nat (- i)) = c # cs" "is_digit c" using str_nat_head by blast
  obtain c' cs' where i': "str_nat (nat i) = c' # cs'" "is_digit c'" using str_nat_head by blast
  obtain d ds where j: "str_nat (nat (- j)) = d # ds" "is_digit d" using str_nat_head by blast
  obtain d' ds' where j': "str_nat (nat j) = d' # ds'" "is_digit d'" using str_nat_head by blast
  consider "i < 0" "j < 0" | "i < 0" "\<not> j < 0" | "\<not> i < 0" "j < 0" | "\<not> i < 0" "\<not> j < 0"
    by blast
  then show ?thesis
  proof cases
    case 1
    with eq have "str_nat (nat (- i)) = str_nat (nat (- j))" by (simp add: str_int_def)
    from str_nat_inj [OF this] 1 show ?thesis by simp
  next
    case 2
    with eq j' nd show ?thesis by (auto simp: str_int_def)
  next
    case 3
    with eq i' nd show ?thesis by (auto simp: str_int_def)
  next
    case 4
    with eq have "str_nat (nat i) = str_nat (nat j)" by (simp add: str_int_def)
    from str_nat_inj [OF this] 4 show ?thesis by simp
  qed
qed

lemma new_plan_id_eq: "new_plan_id t1 = new_plan_id t2 \<longleftrightarrow> timestamp_seconds t1 = timestamp_seconds t2"
  by (auto simp: new_plan_id_def dest: str_int_inj)

lemma generate_plan_invalid:
  "request_fields request = Inl e \<Longrightarrow>
     generate_plan loads kickoff now now_id study_plans request
       = (study_plans, \<lparr>status = 500, body = ErrorOf e\<rparr>)"
  by (simp add: generate_plan_def generate_plan_try_def)

lemma generate_plan_failure:
  assumes "request_fields request = Inr (syllabus_text, prefs, d)" "syllabus_text \<noteq> []" "prefs \<noteq> []"
    and "create_study_plan loads kickoff now syllabus_text prefs d = Inl e"
  shows "generate_plan loads kickoff now now_id study_plans request
           = (study_plans, \<lparr>status = 500, body = ErrorOf e\<rparr>)"
  using assms by (simp add: generate_plan_def generate_plan_try_def)

lemma generate_plan_success:
  assumes "request_fields request = Inr (syllabus_text, prefs, d)" "syllabus_text \<noteq> []" "prefs \<noteq> []"
    and "create_study_plan loads kickoff now syllabus_text prefs d = Inr plan"
  shows "\<exists>hours. generate_plan loads kickoff now now_id study_plans request
           = (study_plans(new_plan_id now_id \<mapsto> plan),
              \<lparr>status = 200,
               body = Success (new_plan_id now_id)
                 \<lparr>summary_created_at = now, summary_duration_days = d,
                  total_estimated_hours = hours,
                  summary_learning_style =
                    primary_learning_style (analyze_learning_preferences_local prefs)\<rparr>\<rparr>)
         \<and> dict_get (syllabus_analysis plan) (ustr ''total_estimated_hours'') (JStr (ustr ''N/A''))
             = Inr hours"
proof -
  from create_study_plan_dict [OF assms(4)] obtain kvs where "syllabus_analysis plan = JDict kvs"
    by blast
  with assms create_study_plan_duration [OF assms(4)] show ?thesis
    by (simp add: generate_plan_def generate_plan_try_def Let_def)
qed

lemma generate_plan_cases:
  "fst (generate_plan loads kickoff now now_id study_plans request) = study_plans
     \<and> status (snd (generate_plan loads kickoff now now_id study_plans request)) \<in> {400, 500}
   \<or> (\<exists>syllabus_text prefs d plan.
         request_fields request = Inr (syllabus_text, prefs, d)
         \<and> syllabus_text \<noteq> [] \<and> prefs \<noteq> []
         \<and> create_study_plan loads kickoff now syllabus_text prefs d = Inr plan
         \<and> duration_days plan = d
         \<and> fst (generate_plan loads kickoff now now_id study_plans request)
             = study_plans(new_plan_id now_id \<mapsto> plan)
         \<and> status (snd (generate_plan loads kickoff now now_id study_plans request)) = 200)"
proof (cases "request_fields request")
  case (Inl e)
  then show ?thesis by (simp add: generate_plan_invalid)
next
  case (Inr triple)
  obtain syllabus_text prefs d where t: "triple = (syllabus_text, prefs, d)" by (cases triple)
  show ?thesis
  proof (cases "syllabus_text = [] \<or> prefs = []")
    case True
    with Inr t show ?thesis by (auto simp: generate_plan_def generate_plan_try_def)
  next
    case False
    show ?thesis
    proof (cases "create_study_plan loads kickoff now syllabus_text prefs d")
      case (Inl e)
      with Inr t False show ?thesis by (simp add: generate_plan_failure)
    next
      case (Inr plan)
      have rf: "request_fields request = Inr (syllabus_text, prefs, d)"
        using \<open>request_fields request = Inr triple\<close> t by simp
      from False have ne: "syllabus_text \<noteq> []" "prefs \<noteq> []" by simp_all
      from generate_plan_success [where now_id = now_id and study_plans = study_plans,
          OF rf ne Inr]
      have "fst (generate_plan loads kickoff now now_id study_plans request)
              = study_plans(new_plan_id now_id \<mapsto> plan)"
        and "status (snd (generate_plan loads kickoff now now_id study_plans request)) = 200"
        by auto
      with rf ne Inr create_study_plan_duration [OF Inr] show ?thesis by blast
    qed
  qed
qed

lemma example_fields:
  "request_fields (example_request (FInt d)) = Inr (''Linear algebra'', ''I like VISUAL aids'', d)"
  by (simp add: request_fields_def example_request_def data_get_def text_defs)

lemma example_plan:
  "create_study_plan json_loads example_client now ''Linear algebra'' ''I like VISUAL aids'' d
     = Inr \<lparr>created_at = now, duration_days = d,
            syllabus_analysis = JDict [(ustr ''subjects'', JList [])],
            learning_analysis = analyze_learning_preferences_local ''I like VISUAL aids'',
            schedule = JDict [(ustr ''schedule'', JList [])],
            resources = JDict [(ustr ''resource_recommendations'', JList [])],
            progress_tracking = generate_progress_tracking_local d\<rparr>"
  by (simp add: create_study_plan_def example_client_def scripted_client_def
        extract_json_from_response_def remove_code_fences_def text_defs decoder_defs Let_def)

lemma example_plan_id:
  "new_plan_id 1762196401200000 = ''plan_1762196401''"
  "new_plan_id 1762196401900000 = ''plan_1762196401''"
  "new_plan_id 1762196403000000 = ''plan_1762196403''"
  by (simp_all add: new_plan_id_def timestamp_seconds_def str_int_def str_nat.simps digit_char_def)

text \<open>
  Claim C1. When the extraction of the syllabus step returns the sentinel and the schedule
  and resource steps return a value, the orchestrator does not abort: steps 3 and 4 are
  issued with no subjects and no topics, the plan record is built with the sentinel as
  its syllabus analysis and the other fields from their steps, and the endpoint stores
  it and answers 200.
\<close>

theorem syllabus_parse_failure_degrades:
  assumes "kickoff (SyllabusTask (take 2000 syllabus_text)) = Inr out1"
    and "extract_json_from_response loads out1 = Inr parse_failure"
    and "kickoff (ScheduleTask d (JList [])
           (primary_learning_style (analyze_learning_preferences_local prefs))) = Inr out2"
    and "extract_json_from_response loads out2 = Inr sched"
    and "kickoff (ResourceTask []
           (primary_learning_style (analyze_learning_preferences_local prefs))) = Inr out3"
    and "extract_json_from_response loads out3 = Inr res"
    and "request_fields request = Inr (syllabus_text, prefs, d)"
    and "syllabus_text \<noteq> []" and "prefs \<noteq> []"
  shows "create_study_plan loads kickoff now syllabus_text prefs d
           = Inr \<lparr>created_at = now, duration_days = d,
                  syllabus_analysis = parse_failure,
                  learning_analysis = analyze_learning_preferences_local prefs,
                  schedule = sched, resources = res,
                  progress_tracking = generate_progress_tracking_local d\<rparr>
         \<and> generate_plan loads kickoff now now_id study_plans request
           = (study_plans(new_plan_id now_id \<mapsto>
                \<lparr>created_at = now, duration_days = d,
                 syllabus_analysis = parse_failure,
                 learning_analysis = analyze_learning_preferences_local prefs,
                 schedule = sched, resources = res,
                 progress_tracking = generate_progress_tracking_local d\<rparr>),
              \<lparr>status = 200,
               body = Success (new_plan_id now_id)
                 \<lparr>summary_created_at = now, summary_duration_days = d,
                  total_estimated_hours = JStr (ustr ''N/A''),
                  summary_learning_style =
                    primary_learning_style (analyze_learning_preferences_local prefs)\<rparr>\<rparr>)"
proof -
  have plan: "create_study_plan loads kickoff now syllabus_text prefs d
           = Inr \<lparr>created_at = now, duration_days = d,
                  syllabus_analysis = parse_failure,
                  learning_analysis = analyze_learning_preferences_local prefs,
                  schedule = sched, resources = res,
                  progress_tracking = generate_progress_tracking_local d\<rparr>"
    using assms(1-6)
    by (simp add: create_study_plan_def Let_def dict_get_parse_failure)
  from generate_plan_success [where now_id = now_id and study_plans = study_plans,
      OF assms(7-9) plan] plan
  show ?thesis by (auto simp: dict_get_parse_failure)
qed

theorem syllabus_parse_failure_degrades_witness:
  "extract_json_from_response json_loads ''Sorry, I cannot help.'' = Inr parse_failure
   \<and> generate_plan json_loads
       (scripted_client ''Sorry, I cannot help.'' ''{\"schedule\": []}''
          ''{\"resource_recommendations\": []}'')
       1762196400000000 1762196401200000 Map.empty (example_request (FInt 28))
     = (Map.empty(''plan_1762196401'' \<mapsto>
          \<lparr>created_at = 1762196400000000, duration_days = 28,
           syllabus_analysis = parse_failure,
           learning_analysis = analyze_learning_preferences_local ''I like VISUAL aids'',
           schedule = JDict [(ustr ''schedule'', JList [])],
           resources = JDict [(ustr ''resource_recommendations'', JList [])],
           progress_tracking = generate_progress_tracking_local 28\<rparr>),
        \<lparr>status = 200,
         body = Success ''plan_1762196401''
           \<lparr>summary_created_at = 1762196400000000, summary_duration_days = 28,
            total_estimated_hours = JStr (ustr ''N/A''),
            summary_learning_style =
              primary_learning_style (analyze_learning_preferences_local ''I like VISUAL aids'')\<rparr>\<rparr>)"
proof -
  let ?client = "scripted_client ''Sorry, I cannot help.'' ''{\"schedule\": []}''
          ''{\"resource_recommendations\": []}''"
  have 1: "?client (SyllabusTask (take 2000 ''Linear algebra'')) = Inr ''Sorry, I cannot help.''"
    by (simp add: scripted_client_def)
  have 2: "extract_json_from_response json_loads ''Sorry, I cannot help.'' = Inr parse_failure"
    by (simp add: extract_json_from_response_def remove_code_fences_def text_defs decoder_defs)
  have 3: "?client (ScheduleTask 28 (JList [])
             (primary_learning_style (analyze_learning_preferences_local ''I like VISUAL aids'')))
           = Inr ''{\"schedule\": []}''"
    by (simp add: scripted_client_def)
  have 4: "extract_json_from_response json_loads ''{\"schedule\": []}''
             = Inr (JDict [(ustr ''schedule'', JList [])])"
    by (simp add: extract_json_from_response_def remove_code_fences_def text_defs decoder_defs)
  have 5: "?client (ResourceTask []
             (primary_learning_style (analyze_learning_preferences_local ''I like VISUAL aids'')))
           = Inr ''{\"resource_recommendations\": []}''"
    by (simp add: scripted_client_def)
  have 6: "extract_json_from_response json_loads ''{\"resource_recommendations\": []}''
             = Inr (JDict [(ustr ''resource_recommendations'', JList [])])"
    by (simp add: extract_json_from_response_def remove_code_fences_def text_defs decoder_defs)
  have 7: "''Linear algebra'' \<noteq> []" "''I like VISUAL aids'' \<noteq> []" by simp_all
  from syllabus_parse_failure_degrades [where now = 1762196400000000
      and now_id = 1762196401200000 and study_plans = Map.empty, OF 1 2 3 4 5 6 example_fields 7] 2
  show ?thesis by (simp add: example_plan_id)
qed

text \<open>
  Claim C2. An exception raised during plan generation aborts the operation as a whole:
  the endpoint answers with status 500 and the exception's text, and the store is the one
  before the request. A failing invocation of the generation client is such an
  exception. More generally, every answer other than 200 leaves the store unchanged.
\<close>

theorem generation_exception_aborts:
  assumes "request_fields request = Inr (syllabus_text, prefs, d)"
    and "syllabus_text \<noteq> []" and "prefs \<noteq> []"
  shows "(create_study_plan loads kickoff now syllabus_text prefs d = Inl e \<longrightarrow>
            generate_plan loads kickoff now now_id study_plans request
              = (study_plans, \<lparr>status = 500, body = ErrorOf e\<rparr>))
         \<and> (kickoff (SyllabusTask (take 2000 syllabus_text)) = Inl e \<longrightarrow>
              create_study_plan loads kickoff now syllabus_text prefs d = Inl e)
         \<and> (status (snd (generate_plan loads kickoff now now_id study_plans request)) \<noteq> 200 \<longrightarrow>
              fst (generate_plan loads kickoff now now_id study_plans request) = study_plans)"
proof (intro conjI impI)
  assume "create_study_plan loads kickoff now syllabus_text prefs d = Inl e"
  from generate_plan_failure [OF assms this]
  show "generate_plan loads kickoff now now_id study_plans request
          = (study_plans, \<lparr>status = 500, body = ErrorOf e\<rparr>)" .
next
  assume "kickoff (SyllabusTask (take 2000 syllabus_text)) = Inl e"
  then show "create_study_plan loads kickoff now syllabus_text prefs d = Inl e"
    by (simp add: create_study_plan_def Let_def)
next
  assume "status (snd (generate_plan loads kickoff now now_id study_plans request)) \<noteq> 200"
  with generate_plan_cases [of loads kickoff now now_id study_plans request]
  show "fst (generate_plan loads kickoff now now_id study_plans request) = study_plans"
    by auto
qed

theorem generation_exception_aborts_witness:
  "unreachable_client (SyllabusTask (take 2000 ''Linear algebra''))
     = Inl (OtherError ''connection refused'')
   \<and> generate_plan json_loads unreachable_client 1762196400000000 1762196401200000 Map.empty
       (example_request (FInt 28))
     = (Map.empty, \<lparr>status = 500, body = ErrorOf (OtherError ''connection refused'')\<rparr>)"
proof -
  have 1: "unreachable_client (SyllabusTask (take 2000 ''Linear algebra''))
     = Inl (OtherError ''connection refused'')"
    by (simp add: unreachable_client_def)
  have 7: "''Linear algebra'' \<noteq> []" "''I like VISUAL aids'' \<noteq> []" by simp_all
  from generation_exception_aborts [where loads = json_loads and kickoff = unreachable_client
      and now = 1762196400000000 and e = "OtherError ''connection refused''"
      and now_id = 1762196401200000 and study_plans = Map.empty, OF example_fields 7] 1
  show ?thesis by simp
qed

text \<open>
  Claim C8, as the code has it. The endpoint makes no check of the sign of the duration.
  A request changes the store only by adding the record of its own plan, and that
  record's \<open>duration_days\<close> is the integer conversion of the request's
  \<open>study_duration_days\<close> (30 when absent), whatever its sign; the checkpoint scheduler
  is run on that value.
\<close>

theorem stored_duration_is_request_value:
  "fst (generate_plan loads kickoff now now_id study_plans request) = study_plans
   \<or> (\<exists>syllabus_text prefs d plan.
         request_fields request = Inr (syllabus_text, prefs, d)
         \<and> fst (generate_plan loads kickoff now now_id study_plans request)
             = study_plans(new_plan_id now_id \<mapsto> plan)
         \<and> duration_days plan = d
         \<and> progress_tracking plan = generate_progress_tracking_local d)"
  using generate_plan_cases [of loads kickoff now now_id study_plans request]
    create_study_plan_duration [of loads kickoff now]
  by blast

theorem stored_duration_is_request_value_witness:
  "request_fields (example_request (FInt 0)) = Inr (''Linear algebra'', ''I like VISUAL aids'', 0)
   \<and> map_option duration_days
        (fst (generate_plan json_loads example_client 1762196400000000 1762196401200000
                Map.empty (example_request (FInt 0))) ''plan_1762196401'') = Some 0"
proof -
  have ne: "''Linear algebra'' \<noteq> []" "''I like VISUAL aids'' \<noteq> []" by simp_all
  from generate_plan_success [where now_id = 1762196401200000 and study_plans = Map.empty
      and now = 1762196400000000, OF example_fields ne example_plan]
  have st: "fst (generate_plan json_loads example_client 1762196400000000 1762196401200000
                Map.empty (example_request (FInt 0))) ''plan_1762196401'' \<noteq> None"
    by (auto simp: example_plan_id)
  from stored_duration_is_request_value [of json_loads example_client 1762196400000000
      1762196401200000 Map.empty "example_request (FInt 0)"] st
  show ?thesis by (auto simp: example_fields example_plan_id)
qed

text \<open>
  A request whose duration is \<open>-5\<close> is answered with 200; its record is stored with
  \<open>duration_days = -5\<close> and with four checkpoints on day \<open>-5\<close>.
\<close>

theorem nonpositive_duration_is_stored:
  "status (snd (generate_plan json_loads example_client 1762196400000000 1762196401200000
                  Map.empty (example_request (FStr ''-5'')))) = 200
   \<and> map_option duration_days
        (fst (generate_plan json_loads example_client 1762196400000000 1762196401200000
                Map.empty (example_request (FStr ''-5''))) ''plan_1762196401'') = Some (- 5)
   \<and> map_option (\<lambda>plan. map day (checkpoint_schedule (progress_tracking plan)))
        (fst (generate_plan json_loads example_client 1762196400000000 1762196401200000
                Map.empty (example_request (FStr ''-5''))) ''plan_1762196401'')
       = Some [- 5, - 5, - 5, - 5]"
proof -
  have f: "request_fields (example_request (FStr ''-5''))
             = Inr (''Linear algebra'', ''I like VISUAL aids'', - 5)"
    by (simp add: request_fields_def example_request_def data_get_def text_defs
          int_of_str_def int_isspace_def int_numeral_def is_digit_def digit_val_def)
  have ne: "''Linear algebra'' \<noteq> []" "''I like VISUAL aids'' \<noteq> []" by simp_all
  from generate_plan_success [where now_id = 1762196401200000 and study_plans = Map.empty
      and now = 1762196400000000, OF f ne example_plan]
  show ?thesis
    by (auto simp: example_plan_id generate_progress_tracking_local_def make_checkpoint_def)
qed

text \<open>
  Claim C9, as the code has it. A successful request stores its record under
  \<open>plan_\<close> followed by the whole seconds of the clock reading, in place of whatever the
  store held under that key. Two readings give the same identifier exactly when they lie
  in the same whole second; a record stored under the identifier of another second is
  left as it was.
\<close>

theorem plan_id_is_whole_second:
  assumes "generate_plan loads kickoff now now_id study_plans request = (study_plans', r)"
    and "status r = 200"
  shows "(\<exists>plan summary. study_plans' = study_plans(new_plan_id now_id \<mapsto> plan)
            \<and> body r = Success (new_plan_id now_id) summary)
         \<and> (new_plan_id t = new_plan_id now_id \<longleftrightarrow> timestamp_seconds t = timestamp_seconds now_id)
         \<and> (timestamp_seconds t \<noteq> timestamp_seconds now_id \<longrightarrow>
              study_plans' (new_plan_id t) = study_plans (new_plan_id t))"
proof -
  from generate_plan_cases [of loads kickoff now now_id study_plans request] assms
  obtain syllabus_text prefs d plan where
    rf: "request_fields request = Inr (syllabus_text, prefs, d)"
    and ne: "syllabus_text \<noteq> []" "prefs \<noteq> []"
    and cr: "create_study_plan loads kickoff now syllabus_text prefs d = Inr plan"
    by auto
  from generate_plan_success [where now_id = now_id and study_plans = study_plans, OF rf ne cr] assms(1)
  have 1: "\<exists>plan summary. study_plans' = study_plans(new_plan_id now_id \<mapsto> plan)
            \<and> body r = Success (new_plan_id now_id) summary"
    by auto
  then have "timestamp_seconds t \<noteq> timestamp_seconds now_id \<longrightarrow>
              study_plans' (new_plan_id t) = study_plans (new_plan_id t)"
    by (auto simp: new_plan_id_eq)
  with 1 show ?thesis by (simp add: new_plan_id_eq)
qed

theorem plan_id_is_whole_second_witness:
  "status (snd (generate_plan json_loads example_client 1762196402000000 1762196403000000
       (fst (generate_plan json_loads example_client 1762196400000000 1762196401200000
               Map.empty (example_request (FInt 28))))
       (example_request (FInt 10)))) = 200
   \<and> new_plan_id 1762196401200000 \<noteq> new_plan_id 1762196403000000
   \<and> map_option duration_days
        (fst (generate_plan json_loads example_client 1762196402000000 1762196403000000
           (fst (generate_plan json_loads example_client 1762196400000000 1762196401200000
                   Map.empty (example_request (FInt 28))))
           (example_request (FInt 10))) ''plan_1762196401'') = Some 28"
proof -
  let ?S1 = "fst (generate_plan json_loads example_client 1762196400000000 1762196401200000
               Map.empty (example_request (FInt 28)))"
  let ?G2 = "generate_plan json_loads example_client 1762196402000000 1762196403000000 ?S1
               (example_request (FInt 10))"
  have ne: "''Linear algebra'' \<noteq> []" "''I like VISUAL aids'' \<noteq> []" by simp_all
  from generate_plan_success [where now_id = 1762196401200000 and study_plans = Map.empty
      and now = 1762196400000000, OF example_fields ne example_plan]
  have s1: "map_option duration_days (?S1 ''plan_1762196401'') = Some 28"
    by (auto simp: example_plan_id)
  from generate_plan_success [where now_id = 1762196403000000 and study_plans = ?S1
      and now = 1762196402000000, OF example_fields ne example_plan]
  have st: "status (snd ?G2) = 200" by auto
  have sec: "timestamp_seconds 1762196401200000 \<noteq> timestamp_seconds 1762196403000000"
    by (simp add: timestamp_seconds_def)
  have "?G2 = (fst ?G2, snd ?G2)" by simp
  from plan_id_is_whole_second [OF this st, of 1762196401200000] sec
  have "new_plan_id 1762196401200000 \<noteq> new_plan_id 1762196403000000"
    and "fst ?G2 (new_plan_id 1762196401200000) = ?S1 (new_plan_id 1762196401200000)"
    by blast+
  with s1 st show ?thesis by (simp add: example_plan_id)
qed

text \<open>
  Two successful requests whose identifiers are taken at 1762196401.2 s and 1762196401.9 s
  both receive \<open>plan_1762196401\<close>; the record of the first (28 days) is replaced by the
  record of the second (10 days).
\<close>

theorem same_second_overwrites:
  "status (snd (generate_plan json_loads example_client 1762196400000000 1762196401200000
                  Map.empty (example_request (FInt 28)))) = 200
   \<and> map_option duration_days
        (fst (generate_plan json_loads example_client 1762196400000000 1762196401200000
                Map.empty (example_request (FInt 28))) ''plan_1762196401'') = Some 28
   \<and> body (snd (generate_plan json_loads example_client 1762196400000000 1762196401200000
                  Map.empty (example_request (FInt 28))))
       = Success ''plan_1762196401''
           \<lparr>summary_created_at = 1762196400000000, summary_duration_days = 28,
            total_estimated_hours = JStr (ustr ''N/A''),
            summary_learning_style =
              primary_learning_style (analyze_learning_preferences_local ''I like VISUAL aids'')\<rparr>
   \<and> body (snd (generate_plan json_loads example_client 1762196401300000 1762196401900000
        (fst (generate_plan json_loads example_client 1762196400000000 1762196401200000
                Map.empty (example_request (FInt 28))))
        (example_request (FInt 10))))
       = Success ''plan_1762196401''
           \<lparr>summary_created_at = 1762196401300000, summary_duration_days = 10,
            total_estimated_hours = JStr (ustr ''N/A''),
            summary_learning_style =
              primary_learning_style (analyze_learning_preferences_local ''I like VISUAL aids'')\<rparr>
   \<and> map_option duration_days
        (fst (generate_plan json_loads example_client 1762196401300000 1762196401900000
           (fst (generate_plan json_loads example_client 1762196400000000 1762196401200000
                   Map.empty (example_request (FInt 28))))
           (example_request (FInt 10))) ''plan_1762196401'') = Some 10"
proof -
  let ?S1 = "fst (generate_plan json_loads example_client 1762196400000000 1762196401200000
               Map.empty (example_request (FInt 28)))"
  have ne: "''Linear algebra'' \<noteq> []" "''I like VISUAL aids'' \<noteq> []" by simp_all
  have h: "dict_get (JDict [(ustr ''subjects'', JList [])]) (ustr ''total_estimated_hours'')
             (JStr (ustr ''N/A'')) = Inr (JStr (ustr ''N/A''))"
    by (simp add: ustr_def)
  from generate_plan_success [where now_id = 1762196401200000 and study_plans = Map.empty
      and now = 1762196400000000, OF example_fields ne example_plan] h
  have 1: "status (snd (generate_plan json_loads example_client 1762196400000000 1762196401200000
                  Map.empty (example_request (FInt 28)))) = 200
     \<and> map_option duration_days (?S1 ''plan_1762196401'') = Some 28
     \<and> body (snd (generate_plan json_loads example_client 1762196400000000 1762196401200000
                  Map.empty (example_request (FInt 28))))
       = Success ''plan_1762196401''
           \<lparr>summary_created_at = 1762196400000000, summary_duration_days = 28,
            total_estimated_hours = JStr (ustr ''N/A''),
            summary_learning_style =
              primary_learning_style (analyze_learning_preferences_local ''I like VISUAL aids'')\<rparr>"
    by (auto simp: example_plan_id)
  from generate_plan_success [where now_id = 1762196401900000 and study_plans = ?S1
      and now = 1762196401300000, OF example_fields ne example_plan] h
  have 2: "body (snd (generate_plan json_loads example_client 1762196401300000 1762196401900000
        ?S1 (example_request (FInt 10))))
       = Success ''plan_1762196401''
           \<lparr>summary_created_at = 1762196401300000, summary_duration_days = 10,
            total_estimated_hours = JStr (ustr ''N/A''),
            summary_learning_style =
              primary_learning_style (analyze_learning_preferences_local ''I like VISUAL aids'')\<rparr>
     \<and> map_option duration_days
        (fst (generate_plan json_loads example_client 1762196401300000 1762196401900000
           ?S1 (example_request (FInt 10))) ''plan_1762196401'') = Some 10"
    by (auto simp: example_plan_id)
  from 1 2 show ?thesis by simp
qed

text \<open>
  Claim C10. When \<open>study_duration_days\<close> is present and \<open>int\<close> raises on it, as it does on
  the string \<open>abc\<close>, the endpoint answers with status 500 and an exception's text, whatever
  the other fields are (no status-400 validation answer); the answer does not depend on
  the generation client or the clock, so generation never starts, and the store is
  unchanged. When both text fields are strings the exception is the one \<open>int\<close> raised.
  When the field is absent the duration is 30.
\<close>

theorem unconvertible_duration_answers_500:
  assumes "map_of kvs ''study_duration_days'' = Some v" and "py_int v = Inl e"
  shows "(\<exists>e'. \<forall>loads kickoff now now_id.
            generate_plan loads kickoff now now_id study_plans (Inr (Dict kvs))
              = (study_plans, \<lparr>status = 500, body = ErrorOf e'\<rparr>))
         \<and> ((\<exists>s p. field_strip (data_get kvs ''syllabus_text'' (FStr [])) = Inr s
                  \<and> field_strip (data_get kvs ''learning_preferences'' (FStr [])) = Inr p) \<longrightarrow>
              generate_plan loads kickoff now now_id study_plans (Inr (Dict kvs))
                = (study_plans, \<lparr>status = 500, body = ErrorOf e\<rparr>))
         \<and> py_int (FStr ''abc'') = Inl ValueError
         \<and> (map_of kvs' ''study_duration_days'' = None
              \<and> field_strip (data_get kvs' ''syllabus_text'' (FStr [])) = Inr s'
              \<and> field_strip (data_get kvs' ''learning_preferences'' (FStr [])) = Inr p' \<longrightarrow>
              request_fields (Inr (Dict kvs')) = Inr (s', p', 30))"
proof (intro conjI impI)
  from assms have d: "py_int (data_get kvs ''study_duration_days'' (FInt 30)) = Inl e"
    by (simp add: data_get_def)
  then have "\<exists>e'. request_fields (Inr (Dict kvs)) = Inl e'"
    by (cases "field_strip (data_get kvs ''syllabus_text'' (FStr []))";
        cases "field_strip (data_get kvs ''learning_preferences'' (FStr []))")
       (simp_all add: request_fields_def)
  then obtain e' where "request_fields (Inr (Dict kvs)) = Inl e'" by blast
  then have "\<forall>loads kickoff now now_id.
            generate_plan loads kickoff now now_id study_plans (Inr (Dict kvs))
              = (study_plans, \<lparr>status = 500, body = ErrorOf e'\<rparr>)"
    by (simp add: generate_plan_invalid)
  then show "\<exists>e'. \<forall>loads kickoff now now_id.
            generate_plan loads kickoff now now_id study_plans (Inr (Dict kvs))
              = (study_plans, \<lparr>status = 500, body = ErrorOf e'\<rparr>)" by blast
next
  assume "\<exists>s p. field_strip (data_get kvs ''syllabus_text'' (FStr [])) = Inr s
                  \<and> field_strip (data_get kvs ''learning_preferences'' (FStr [])) = Inr p"
  with assms have "request_fields (Inr (Dict kvs)) = Inl e"
    by (auto simp: request_fields_def data_get_def)
  then show "generate_plan loads kickoff now now_id study_plans (Inr (Dict kvs))
                = (study_plans, \<lparr>status = 500, body = ErrorOf e\<rparr>)"
    by (rule generate_plan_invalid)
next
  show "py_int (FStr ''abc'') = Inl ValueError"
    by (simp add: int_of_str_def int_isspace_def int_numeral_def is_digit_def)
next
  assume "map_of kvs' ''study_duration_days'' = None
              \<and> field_strip (data_get kvs' ''syllabus_text'' (FStr [])) = Inr s'
              \<and> field_strip (data_get kvs' ''learning_preferences'' (FStr [])) = Inr p'"
  then show "request_fields (Inr (Dict kvs')) = Inr (s', p', 30)"
    by (simp add: request_fields_def data_get_def)
qed

theorem unconvertible_duration_answers_500_witness:
  "map_of [(''syllabus_text'', FStr []), (''learning_preferences'', FStr ''x''),
           (''study_duration_days'', FStr ''abc'')] ''study_duration_days'' = Some (FStr ''abc'')
   \<and> py_int (FStr ''abc'') = Inl ValueError
   \<and> generate_plan json_loads example_client 1762196400000000 1762196401200000 Map.empty
       (Inr (Dict [(''syllabus_text'', FStr []), (''learning_preferences'', FStr ''x''),
                   (''study_duration_days'', FStr ''abc'')]))
     = (Map.empty, \<lparr>status = 500, body = ErrorOf ValueError\<rparr>)
   \<and> request_fields (Inr (Dict [(''syllabus_text'', FStr ''a''),
                                (''learning_preferences'', FStr ''b'')])) = Inr (''a'', ''b'', 30)"
proof -
  let ?kvs = "[(''syllabus_text'', FStr []), (''learning_preferences'', FStr ''x''),
           (''study_duration_days'', FStr ''abc'')]"
  let ?kvs' = "[(''syllabus_text'', FStr ''a''), (''learning_preferences'', FStr ''b'')]"
  have 1: "map_of ?kvs ''study_duration_days'' = Some (FStr ''abc'')" by simp
  have 2: "py_int (FStr ''abc'') = Inl ValueError"
    by (simp add: int_of_str_def int_isspace_def int_numeral_def is_digit_def)
  have 3: "\<exists>s p. field_strip (data_get ?kvs ''syllabus_text'' (FStr [])) = Inr s
                  \<and> field_strip (data_get ?kvs ''learning_preferences'' (FStr [])) = Inr p"
    by (simp add: data_get_def)
  have 4: "map_of ?kvs' ''study_duration_days'' = None
              \<and> field_strip (data_get ?kvs' ''syllabus_text'' (FStr [])) = Inr ''a''
              \<and> field_strip (data_get ?kvs' ''learning_preferences'' (FStr [])) = Inr ''b''"
    by (simp add: data_get_def text_defs)
  from unconvertible_duration_answers_500 [where kvs' = ?kvs' and s' = "''a''" and p' = "''b''"
      and loads = json_loads and kickoff = example_client and now = 1762196400000000
      and now_id = 1762196401200000 and study_plans = Map.empty, OF 1 2] 1 2 3 4
  show ?thesis by blast
qed

end
